theory Spec2Isabelle
  imports Main
begin

section \<open>Shared data of the SSH layer\<close>

text \<open>
  What the code sees of an \<open>ssh.PublicKey\<close>: its algorithm name (\<open>Type()\<close>) and its
  wire form (\<open>Marshal()\<close>).
\<close>

record PublicKey =
  key_type :: string
  marshal :: string

text \<open>
  Go's \<open>error\<close> values that the verified functions tell apart. A
  \<open>knownhosts.KeyError\<close> carries the list \<open>Want\<close> of keys recorded for the host; an
  error made by \<open>fmt.Errorf\<close> is its format and arguments; a parse error of the URI
  parser carries the string it was given; every other error is kept as its message.
\<close>

datatype error =
  KeyError "PublicKey list"
  | Errorf string "string list"
  | ParseError string
  | OtherError string

text \<open>A line written by \<open>log.Printf\<close> or \<open>log.Println\<close>: the format and its arguments.\<close>

type_synonym log_line = "string \<times> string list"

text \<open>
  A call either returns, or ends the process: \<open>log.Fatalf\<close> exits with status 1 and
  \<open>panic\<close> unwinds the goroutine and kills the program.
\<close>

datatype 'a outcome =
  Returned 'a
  | Fatal string
  | Panicked error

text \<open>
  What the two packages take from outside: \<open>ioutil.ReadFile\<close>; from
  \<open>golang.org/x/crypto/ssh\<close> the parsers \<open>ParseAuthorizedKey\<close> (the key of the first
  line and the rest of the input) and \<open>ParsePrivateKey\<close>, and \<open>FingerprintSHA256\<close>; from
  \<open>knownhosts\<close> the parser of \<open>knownhosts.New\<close>, which turns the content of a
  known-hosts file into the callback that checks a host name, a remote address and a
  key against it; and \<open>utils.SerializePublicKey\<close>.
\<close>

record ssh_lib =
  ReadFile :: "string \<Rightarrow> error + string"
  ParseAuthorizedKey :: "string \<Rightarrow> error + PublicKey \<times> string"
  ParsePrivateKey :: "string \<Rightarrow> error + string"
  FingerprintSHA256 :: "PublicKey \<Rightarrow> string"
  ParseKnownHosts :: "string \<Rightarrow> error + (string \<Rightarrow> string \<Rightarrow> PublicKey \<Rightarrow> error option)"
  SerializePublicKey :: "PublicKey \<Rightarrow> string"

section \<open>Client side: the auth provider\<close>

text \<open>
  \<open>ssh.AuthMethod\<close> values the client builds: what \<open>utils.LoadIdentityFile\<close> returned
  for the identity path, \<open>ssh.Password\<close> of a string, and \<open>ssh.PasswordCallback\<close> of
  the terminal prompt.
\<close>

datatype AuthMethod =
  ssh_PublicKeys string
  | ssh_Password string
  | ssh_PasswordCallback

text \<open>
  The fields of \<open>SshConnection\<close> the functions below read or write. \<open>Client\<close> is
  the pointer \<open>*ssh.Client\<close>: \<open>None\<close> is nil, \<open>Some c\<close> the handle of connection
  number \<open>c\<close>. \<open>connected\<close> is the counter of the \<open>sync.WaitGroup\<close>: \<open>Wait\<close> blocks
  while it is not zero. Durations are in nanoseconds.
\<close>

record SshConnection =
  username :: string
  identity :: string
  password :: string
  knownHosts :: string
  insecure :: bool
  quiet :: bool
  jumpHosts :: "string list"
  reconnectionInterval :: int
  keepAliveInterval :: int
  Client :: "nat option"
  connected :: int
  connectionStatus :: string
  isStopped :: bool

definition STATUS_CONNECTING :: string where
  "STATUS_CONNECTING = ''Connecting...''"

definition STATUS_CONNECTED :: string where
  "STATUS_CONNECTED = ''Connected''"

definition STATUS_CLOSED :: string where
  "STATUS_CLOSED = ''Closed''"

text \<open>
  \<open>getAuthMethods\<close>: three appends to a list that starts empty. The loader
  \<open>utils.LoadIdentityFile\<close> is passed in as \<open>load\<close>.
\<close>

definition getAuthMethods ::
  "(string \<Rightarrow> error + AuthMethod) \<Rightarrow> SshConnection \<Rightarrow> AuthMethod list" where
  "getAuthMethods load s =
     (let authMethods = [];
          authMethods = (case load (identity s) of
                           Inr keysAuth \<Rightarrow> authMethods @ [keysAuth]
                         | Inl err \<Rightarrow> authMethods);
          authMethods = (if password s \<noteq> '''' then authMethods @ [ssh_Password (password s)]
                         else authMethods)
      in authMethods @ [ssh_PasswordCallback])"

section \<open>Client side: the connection manager\<close>

record SshClientConf =
  ServerURI :: string
  Identity :: string
  Password :: string
  KnownHosts :: string
  Insecure :: bool
  Quiet :: bool
  JumpHosts :: "string list"

definition Second :: int where
  "Second = 1000000000"

text \<open>
  \<open>NewSshConnection\<close>. From outside come the user name that \<open>utils.ParseSSHUrl\<close> finds in
  the server URI, the home directory of \<open>user.Current()\<close> and \<open>utils.ExpandUserHome\<close>;
  \<open>filepath.Join\<close> of the home directory, \<open>.ssh\<close> and \<open>known_hosts\<close> is written with
  the separator \<open>/\<close>. The new connection is stopped, its status is \<open>Connecting...\<close>,
  its client is nil and the wait group counts 1 (\<open>c.connected.Add(1)\<close>).
\<close>

definition NewSshConnection ::
  "(string \<Rightarrow> string) \<Rightarrow> string \<Rightarrow> (string \<Rightarrow> string) \<Rightarrow> SshClientConf \<Rightarrow> SshConnection" where
  "NewSshConnection parsedUsername homeDir expandUserHome conf =
     (let knownHostsPath =
            (if KnownHosts conf = '''' then homeDir @ ''/.ssh/known_hosts''
             else expandUserHome (KnownHosts conf))
      in \<lparr>username = parsedUsername (ServerURI conf),
          identity = Identity conf,
          password = Password conf,
          knownHosts = knownHostsPath,
          insecure = Insecure conf,
          quiet = Quiet conf,
          jumpHosts = JumpHosts conf,
          reconnectionInterval = 5 * Second,
          keepAliveInterval = 5 * Second,
          Client = None,
          connected = 0 + 1,
          connectionStatus = STATUS_CONNECTING,
          isStopped = True\<rparr>)"

text \<open>
  What the manager does to the outside, in order: the lines it logs (by their format),
  its sleeps, the global requests it sends on a client (name and \<open>wantReply\<close>), and
  the clients it closes.
\<close>

datatype sshc_action =
  LogPrintf string
  | Sleep int
  | SendRequest nat string bool
  | CloseClient nat

text \<open>
  \<open>Start\<close> runs in one goroutine and \<open>Stop\<close> is called from another, on the same
  \<open>SshConnection\<close>. The state of this system is the connection, what was done so far,
  and where each of the two goroutines stands. A goroutine moves by one statement
  that reads or writes the connection at a time; every access is atomic (the mutexes, the
  atomic flag, the wait group).
\<close>

datatype start_pc =
  NotRunning
  | LoopHead
  | SetConnecting
  | Connecting
  | Sleeping
  | LatchDone
  | SetConnected
  | KeepAliveEnter
  | KeepAliveSend
  | KeepAliveSleep
  | ResetClose
  | ResetStatus
  | LatchAdd
  | StartPanicked

datatype stop_pc =
  StopIdle
  | StopResetClose
  | StopResetStatus

record sshc_system =
  ssh_conn :: SshConnection
  ssh_trace :: "sshc_action list"
  start_at :: start_pc
  stop_at :: stop_pc

text \<open>\<open>resetConn\<close>, first critical section: close the client if there is one.\<close>

definition resetConn_close :: "sshc_system \<Rightarrow> sshc_system" where
  "resetConn_close \<sigma> =
     (case Client (ssh_conn \<sigma>) of
        None \<Rightarrow> \<sigma>
      | Some c \<Rightarrow> \<sigma>\<lparr>ssh_trace := ssh_trace \<sigma> @ [CloseClient c]\<rparr>)"

text \<open>\<open>resetConn\<close>, second critical section: the status becomes \<open>Closed\<close>.\<close>

definition resetConn_status :: "sshc_system \<Rightarrow> sshc_system" where
  "resetConn_status \<sigma> = \<sigma>\<lparr>ssh_conn := (ssh_conn \<sigma>)\<lparr>connectionStatus := STATUS_CLOSED\<rparr>\<rparr>"

text \<open>\<open>resetConn\<close> and \<open>Stop\<close> when nothing runs in between.\<close>

definition resetConn :: "sshc_system \<Rightarrow> sshc_system" where
  "resetConn \<sigma> = resetConn_status (resetConn_close \<sigma>)"

definition Stop :: "sshc_system \<Rightarrow> sshc_system" where
  "Stop \<sigma> = resetConn (\<sigma>\<lparr>ssh_conn := (ssh_conn \<sigma>)\<lparr>isStopped := True\<rparr>\<rparr>)"

text \<open>
  \<open>connect\<close>, given what the dial (\<open>directConnect\<close> or \<open>jumpHostConnect\<close>) returned: an
  error is passed on and the connection is left as it was; a client is stored in
  \<open>Client\<close>.
\<close>

definition connect :: "SshConnection \<Rightarrow> error + nat \<Rightarrow> SshConnection \<times> error option" where
  "connect s dialed =
     (case dialed of
        Inl err \<Rightarrow> (s, Some err)
      | Inr c \<Rightarrow> (s\<lparr>Client := Some c\<rparr>, None))"

text \<open>
  What can happen next: \<open>Start\<close> is called; the \<open>Start\<close> goroutine runs its next
  statement; the dial inside \<open>connect\<close> returns; \<open>SendRequest\<close> inside \<open>keepAlive\<close>
  returns; \<open>Stop\<close> is called; the \<open>Stop\<close> goroutine runs its next statement. An event that
  the goroutine is not waiting for changes nothing.
\<close>

datatype sshc_event =
  CallStart
  | StartStep
  | ConnectReturns "error + nat"
  | SendRequestReturns "error option"
  | CallStop
  | StopStep

text \<open>
  One statement of \<open>Start\<close> of \<open>SshConnection\<close> (with \<open>keepAlive\<close> and \<open>resetConn\<close>
  inlined where it calls them): the stop check at the head of the loop; the status
  \<open>Connecting...\<close>; after a failed \<open>connect\<close>, the sleep and back to the head; after a
  \<open>connect\<close> that succeeded, \<open>Done\<close>, the status \<open>Connected\<close>, and \<open>keepAlive\<close>, which
  sleeps after each request that succeeded; when \<open>keepAlive\<close> has returned, the two
  halves of \<open>resetConn\<close>, \<open>Add(1)\<close> and back to the head. \<open>Done\<close> on a wait group
  that counts 0 panics, and so does \<open>SendRequest\<close> on a nil client.
\<close>

definition start_step :: "sshc_system \<Rightarrow> sshc_system" where
  "start_step \<sigma> =
     (let s = ssh_conn \<sigma> in
      case start_at \<sigma> of
        LoopHead \<Rightarrow> if isStopped s then \<sigma>\<lparr>start_at := NotRunning\<rparr> else \<sigma>\<lparr>start_at := SetConnecting\<rparr>
      | SetConnecting \<Rightarrow>
          \<sigma>\<lparr>ssh_conn := s\<lparr>connectionStatus := STATUS_CONNECTING\<rparr>, start_at := Connecting\<rparr>
      | Sleeping \<Rightarrow>
          \<sigma>\<lparr>ssh_trace := ssh_trace \<sigma> @ [Sleep (reconnectionInterval s)], start_at := LoopHead\<rparr>
      | LatchDone \<Rightarrow>
          if connected s - 1 < 0 then \<sigma>\<lparr>start_at := StartPanicked\<rparr>
          else \<sigma>\<lparr>ssh_conn := s\<lparr>connected := connected s - 1\<rparr>, start_at := SetConnected\<rparr>
      | SetConnected \<Rightarrow>
          \<sigma>\<lparr>ssh_conn := s\<lparr>connectionStatus := STATUS_CONNECTED\<rparr>, start_at := KeepAliveEnter\<rparr>
      | KeepAliveEnter \<Rightarrow>
          \<sigma>\<lparr>ssh_trace := ssh_trace \<sigma> @ [LogPrintf ''starting client keep alive''],
            start_at := KeepAliveSend\<rparr>
      | KeepAliveSleep \<Rightarrow>
          \<sigma>\<lparr>ssh_trace := ssh_trace \<sigma> @ [Sleep (keepAliveInterval s)], start_at := KeepAliveSend\<rparr>
      | ResetClose \<Rightarrow> (resetConn_close \<sigma>)\<lparr>start_at := ResetStatus\<rparr>
      | ResetStatus \<Rightarrow> (resetConn_status \<sigma>)\<lparr>start_at := LatchAdd\<rparr>
      | LatchAdd \<Rightarrow> \<sigma>\<lparr>ssh_conn := s\<lparr>connected := connected s + 1\<rparr>, start_at := LoopHead\<rparr>
      | _ \<Rightarrow> \<sigma>)"

fun sshc_step :: "sshc_system \<Rightarrow> sshc_event \<Rightarrow> sshc_system" where
  "sshc_step \<sigma> CallStart =
     (if start_at \<sigma> = NotRunning
      then \<sigma>\<lparr>ssh_conn := (ssh_conn \<sigma>)\<lparr>isStopped := False\<rparr>, start_at := LoopHead\<rparr>
      else \<sigma>)"
| "sshc_step \<sigma> StartStep = start_step \<sigma>"
| "sshc_step \<sigma> (ConnectReturns dialed) =
     (if start_at \<sigma> = Connecting then
        (case connect (ssh_conn \<sigma>) dialed of
           (s, Some err) \<Rightarrow>
             \<sigma>\<lparr>ssh_conn := s, ssh_trace := ssh_trace \<sigma> @ [LogPrintf ''error while connecting %s''],
               start_at := Sleeping\<rparr>
         | (s, None) \<Rightarrow> \<sigma>\<lparr>ssh_conn := s, start_at := LatchDone\<rparr>)
      else \<sigma>)"
| "sshc_step \<sigma> (SendRequestReturns r) =
     (if start_at \<sigma> = KeepAliveSend then
        (case Client (ssh_conn \<sigma>) of
           None \<Rightarrow> \<sigma>\<lparr>start_at := StartPanicked\<rparr>
         | Some c \<Rightarrow>
             (case r of
                None \<Rightarrow>
                  \<sigma>\<lparr>ssh_trace := ssh_trace \<sigma> @ [SendRequest c ''keepalive@rospo'' True],
                    start_at := KeepAliveSleep\<rparr>
              | Some err \<Rightarrow>
                  \<sigma>\<lparr>ssh_trace := ssh_trace \<sigma> @
                      [SendRequest c ''keepalive@rospo'' True,
                       LogPrintf ''error while sending keep alive %s''],
                    start_at := ResetClose\<rparr>))
      else \<sigma>)"
| "sshc_step \<sigma> CallStop =
     (if stop_at \<sigma> = StopIdle
      then \<sigma>\<lparr>ssh_conn := (ssh_conn \<sigma>)\<lparr>isStopped := True\<rparr>, stop_at := StopResetClose\<rparr>
      else \<sigma>)"
| "sshc_step \<sigma> StopStep =
     (case stop_at \<sigma> of
        StopIdle \<Rightarrow> \<sigma>
      | StopResetClose \<Rightarrow> (resetConn_close \<sigma>)\<lparr>stop_at := StopResetStatus\<rparr>
      | StopResetStatus \<Rightarrow> (resetConn_status \<sigma>)\<lparr>stop_at := StopIdle\<rparr>)"

text \<open>The system around a connection on which neither function has been called yet.\<close>

definition sshc_init :: "SshConnection \<Rightarrow> sshc_system" where
  "sshc_init s = \<lparr>ssh_conn = s, ssh_trace = [], start_at = NotRunning, stop_at = StopIdle\<rparr>"

definition sshc_run :: "SshConnection \<Rightarrow> sshc_event list \<Rightarrow> sshc_system" where
  "sshc_run s events = foldl sshc_step (sshc_init s) events"

text \<open>
  The events of one failed connect attempt (the dial fails, the sleep, the stop check,
  the status), and of one keep-alive round that succeeds (the request, the sleep).
\<close>

definition failed_attempt :: "error \<Rightarrow> sshc_event list" where
  "failed_attempt err = [ConnectReturns (Inl err), StartStep, StartStep, StartStep]"

definition keepalive_round :: "sshc_event list" where
  "keepalive_round = [SendRequestReturns None, StartStep]"

text \<open>A configuration and the connection made from it, for running the definitions.\<close>

definition demo_conf :: SshClientConf where
  "demo_conf =
     \<lparr>ServerURI = ''rospo@example.org:2222'', Identity = ''/home/rospo/.ssh/id_rsa'',
      Password = '''', KnownHosts = '''', Insecure = False, Quiet = False, JumpHosts = []\<rparr>"

definition demo_conn :: SshConnection where
  "demo_conn = NewSshConnection (\<lambda>uri. takeWhile (\<lambda>c. c \<noteq> CHR ''@'') uri) ''/home/rospo''
                 (\<lambda>p. p) demo_conf"

text \<open>
  The events of a connect attempt that succeeds with client \<open>c\<close> up to the first
  keep-alive request (the dial returns, \<open>Done\<close>, the status, \<open>keepAlive\<close> is entered), and
  of a keep-alive request that fails up to the next connect attempt (the request returns
  the error, the two halves of \<open>resetConn\<close>, \<open>Add(1)\<close>, the stop check, the status).
\<close>

definition connect_succeeds :: "nat \<Rightarrow> sshc_event list" where
  "connect_succeeds c = [ConnectReturns (Inr c), StartStep, StartStep, StartStep]"

definition keepalive_fails :: "error \<Rightarrow> sshc_event list" where
  "keepalive_fails err =
     [SendRequestReturns (Some err), StartStep, StartStep, StartStep, StartStep, StartStep]"

text \<open>
  What holds of the connection at each point of \<open>Start\<close>, whatever \<open>Stop\<close> does in
  between. \<open>armed\<close>: the wait group counts 1 and the status is not \<open>Connected\<close>.
  \<open>live\<close>: the wait group counts 0 and there is a client.
\<close>

definition sshc_inv :: "sshc_system \<Rightarrow> bool" where
  "sshc_inv \<sigma> =
     (let s = ssh_conn \<sigma>;
          armed = (connected s = 1 \<and> connectionStatus s \<noteq> STATUS_CONNECTED);
          live = (connected s = 0 \<and> Client s \<noteq> None)
      in case start_at \<sigma> of
           NotRunning \<Rightarrow> armed
         | LoopHead \<Rightarrow> armed
         | SetConnecting \<Rightarrow> armed
         | Connecting \<Rightarrow> armed
         | Sleeping \<Rightarrow> armed
         | LatchDone \<Rightarrow> armed \<and> Client s \<noteq> None
         | SetConnected \<Rightarrow> live \<and> connectionStatus s \<noteq> STATUS_CONNECTED
         | KeepAliveEnter \<Rightarrow> live
         | KeepAliveSend \<Rightarrow> live
         | KeepAliveSleep \<Rightarrow> live
         | ResetClose \<Rightarrow> live
         | ResetStatus \<Rightarrow> live
         | LatchAdd \<Rightarrow> live \<and> connectionStatus s \<noteq> STATUS_CONNECTED
         | StartPanicked \<Rightarrow> False)"

section \<open>Client side: the host-key verifier\<close>

text \<open>
  The part of the machine the verifier touches: the files by path, each with its
  permission bits and content; the paths at which a file can be created; and the lines
  handed to the package logger so far (the logger drops them when the connection was
  made quiet). Files that exist can be opened for reading.
\<close>

record os_file =
  mode :: nat
  content :: string

record world =
  files :: "string \<rightharpoonup> os_file"
  can_create :: "string \<Rightarrow> bool"
  logged :: "log_line list"

definition log_Printf :: "world \<Rightarrow> log_line \<Rightarrow> world" where
  "log_Printf w l = w\<lparr>logged := logged w @ [l]\<rparr>"

text \<open>\<open>knownhosts.New(path)\<close> opens the file, which fails if it is absent, and parses it.\<close>

definition knownhosts_New ::
  "ssh_lib \<Rightarrow> world \<Rightarrow> string
     \<Rightarrow> error + (string \<Rightarrow> string \<Rightarrow> PublicKey \<Rightarrow> error option)" where
  "knownhosts_New lib w path =
     (case files w path of
        None \<Rightarrow> Inl (OtherError ''open: no such file or directory'')
      | Some f \<Rightarrow> ParseKnownHosts lib (content f))"

text \<open>
  \<open>os.OpenFile(path, os.O_CREATE, perm)\<close> followed by \<open>Close\<close>: a file that exists is
  left as it is (the flags neither truncate nor write); a file that does not exist is
  created empty with the permission bits asked for, where that is possible. The
  process umask is outside the model.
\<close>

definition os_OpenFile_O_CREATE :: "world \<Rightarrow> string \<Rightarrow> nat \<Rightarrow> error + world" where
  "os_OpenFile_O_CREATE w path perm =
     (case files w path of
        Some f \<Rightarrow> Inr w
      | None \<Rightarrow>
          if can_create w path
          then Inr (w\<lparr>files := (files w)(path \<mapsto> \<lparr>mode = perm, content = ''''\<rparr>)\<rparr>)
          else Inl (OtherError ''open: permission denied''))"

text \<open>The octal literal \<open>0600\<close>.\<close>

definition perm_0600 :: nat where
  "perm_0600 = 6 * 8 * 8 + 0 * 8 + 0"

text \<open>
  The callback returned in strict mode, first half: get the known-hosts callback
  \<open>clb\<close>, creating the file and trying once more if \<open>knownhosts.New\<close> fails.
\<close>

definition open_known_hosts ::
  "ssh_lib \<Rightarrow> SshConnection \<Rightarrow> world
     \<Rightarrow> (string \<Rightarrow> string \<Rightarrow> PublicKey \<Rightarrow> error option) outcome \<times> world" where
  "open_known_hosts lib s w =
     (case knownhosts_New lib w (knownHosts s) of
        Inr clb \<Rightarrow> (Returned clb, w)
      | Inl err \<Rightarrow>
          (let w = log_Printf w (''error while parsing 'known_hosts' file: %s: %v'', [knownHosts s])
           in case os_OpenFile_O_CREATE w (knownHosts s) perm_0600 of
                Inl fErr \<Rightarrow> (Fatal ''%s'', log_Printf w (''%s'', []))
              | Inr w \<Rightarrow>
                  (case knownhosts_New lib w (knownHosts s) of
                     Inl err \<Rightarrow> (Fatal ''%s'', log_Printf w (''%s'', []))
                   | Inr clb \<Rightarrow> (Returned clb, w))))"

text \<open>
  The format of the fatal message for a host that is not trusted: a raw string literal
  that runs over two source lines, the second indented by four tabs and two spaces.
\<close>

definition not_trusted_format :: string where
  "not_trusted_format =
     ''ERROR: the host '%s' is not trusted. If it is trusted instead, \<newline>''
     @ replicate 4 (CHR 0x09)
     @ ''  please grab its pub key using the 'rospo grabpubkey' command''"

text \<open>
  Second half: ask \<open>clb\<close> and decide. \<open>addHostKey\<close> stands for
  \<open>utils.AddHostKeyToKnownHosts\<close> (host, key, path), a function of this repository
  defined in another file: it returns its error and the world it leaves.
\<close>

definition check_host_key ::
  "ssh_lib \<Rightarrow> (string \<Rightarrow> PublicKey \<Rightarrow> string \<Rightarrow> world \<Rightarrow> error option \<times> world)
     \<Rightarrow> SshConnection \<Rightarrow> bool \<Rightarrow> (string \<Rightarrow> string \<Rightarrow> PublicKey \<Rightarrow> error option)
     \<Rightarrow> string \<Rightarrow> string \<Rightarrow> PublicKey \<Rightarrow> world \<Rightarrow> error option outcome \<times> world" where
  "check_host_key lib addHostKey s fail clb host remote key w =
     (let e = clb host remote key in
      case e of
        Some (KeyError want) \<Rightarrow>
          if length want > 0 then
            (Returned e,
             log_Printf w
               (''ERROR: %s is not a key of %s, either a man in the middle attack or %s host pub key was changed.'',
                [FingerprintSHA256 lib key, host, host]))
          else if fail then
            (Fatal not_trusted_format,
             log_Printf w
               (not_trusted_format,
                [host]))
          else
            (let w = log_Printf w
                       (''WARNING: %s is not trusted, adding this key: \<newline>\<newline>%s\<newline>\<newline>to known_hosts file.'',
                        [host, SerializePublicKey lib key]);
                 (r, w) = addHostKey host key (knownHosts s) w
             in (Returned r, w))
      | _ \<Rightarrow> (Returned e, w))"

text \<open>
  \<open>verifyHostCallback(fail)\<close>, applied to the host, the remote address and the key it
  is called with, in the world \<open>w\<close>.
\<close>

definition verifyHostCallback ::
  "ssh_lib \<Rightarrow> (string \<Rightarrow> PublicKey \<Rightarrow> string \<Rightarrow> world \<Rightarrow> error option \<times> world)
     \<Rightarrow> SshConnection \<Rightarrow> bool
     \<Rightarrow> string \<Rightarrow> string \<Rightarrow> PublicKey \<Rightarrow> world \<Rightarrow> error option outcome \<times> world" where
  "verifyHostCallback lib addHostKey s fail host remote key w =
     (if insecure s then (Returned None, w)
      else
        (let w = log_Printf w (''using known_hosts file at %s'', [knownHosts s])
         in case open_known_hosts lib s w of
              (Returned clb, w) \<Rightarrow> check_host_key lib addHostKey s fail clb host remote key w
            | (Fatal msg, w) \<Rightarrow> (Fatal msg, w)
            | (Panicked err, w) \<Rightarrow> (Panicked err, w)))"

text \<open>
  The \<open>HostKeyCallback\<close> of the \<open>ssh.ClientConfig\<close> that \<open>connect\<close> builds for a client
  dial (and \<open>jumpHostConnect\<close> for every hop), and the one that \<open>GrabPubKey\<close> builds.
\<close>

definition connect_HostKeyCallback ::
  "ssh_lib \<Rightarrow> (string \<Rightarrow> PublicKey \<Rightarrow> string \<Rightarrow> world \<Rightarrow> error option \<times> world)
     \<Rightarrow> SshConnection
     \<Rightarrow> string \<Rightarrow> string \<Rightarrow> PublicKey \<Rightarrow> world \<Rightarrow> error option outcome \<times> world" where
  "connect_HostKeyCallback lib addHostKey s = verifyHostCallback lib addHostKey s True"

definition GrabPubKey_HostKeyCallback ::
  "ssh_lib \<Rightarrow> (string \<Rightarrow> PublicKey \<Rightarrow> string \<Rightarrow> world \<Rightarrow> error option \<times> world)
     \<Rightarrow> SshConnection
     \<Rightarrow> string \<Rightarrow> string \<Rightarrow> PublicKey \<Rightarrow> world \<Rightarrow> error option outcome \<times> world" where
  "GrabPubKey_HostKeyCallback lib addHostKey s = verifyHostCallback lib addHostKey s False"

text \<open>
  Modelled from the spec: \<open>utils.AddHostKeyToKnownHosts\<close> is not among the sources. The
  spec has the key appended to the store, and the known-hosts file appended to only,
  never rewritten: the line that \<open>line\<close> (for \<open>knownhosts.Line\<close>) makes of the host and the
  key is added at the end of the file at \<open>path\<close>; a file that is absent is an error.
\<close>

definition AddHostKeyToKnownHosts ::
  "(string \<Rightarrow> PublicKey \<Rightarrow> string) \<Rightarrow> string \<Rightarrow> PublicKey \<Rightarrow> string \<Rightarrow> world
     \<Rightarrow> error option \<times> world" where
  "AddHostKeyToKnownHosts line host key path w =
     (case files w path of
        None \<Rightarrow> (Some (OtherError ''open: no such file or directory''), w)
      | Some f \<Rightarrow>
          (None, w\<lparr>files := (files w)(path \<mapsto> f\<lparr>content := content f @ line host key\<rparr>)\<rparr>))"

text \<open>
  A small known-hosts format for running the definitions: the file is a sequence of
  entries of two bytes, one for the host and one for the key.
\<close>

fun toy_entries :: "string \<Rightarrow> (char \<times> char) list option" where
  "toy_entries [] = Some []"
| "toy_entries [h] = None"
| "toy_entries (h # k # rest) = map_option ((#) (h, k)) (toy_entries rest)"

definition toy_ParseKnownHosts ::
  "string \<Rightarrow> error + (string \<Rightarrow> string \<Rightarrow> PublicKey \<Rightarrow> error option)" where
  "toy_ParseKnownHosts bytes =
     (case toy_entries bytes of
        None \<Rightarrow> Inl (OtherError ''knownhosts: parse error'')
      | Some entries \<Rightarrow>
          Inr (\<lambda>host remote key.
                 let want = map (\<lambda>(h, k). \<lparr>key_type = ''ssh-rsa'', marshal = [k]\<rparr>)
                              (filter (\<lambda>(h, k). [h] = host) entries)
                 in if want = [] then Some (KeyError [])
                    else if key \<in> set want then None
                    else Some (KeyError want)))"

definition toy_line :: "string \<Rightarrow> PublicKey \<Rightarrow> string" where
  "toy_line host key = host @ marshal key"

section \<open>Server side: the embedded SSH server\<close>

text \<open>
  \<open>SshServer\<close>: \<open>authorizedKeysMap\<close> is Go's \<open>map[string]bool\<close>, \<open>client\<close> the pointer
  \<open>*ssh.ServerConn\<close> (\<open>None\<close> is nil, \<open>Some c\<close> the connection numbered \<open>c\<close>).
\<close>

record SshServer =
  authorizedKeysMap :: "string \<rightharpoonup> bool"
  client :: "nat option"
  tcpPort :: string



record Request =
  Type :: string
  WantReply :: bool
  Payload :: string





text \<open>
  What the server does to the outside, in order: log lines, calls of the forward handler
  \<open>handleTcpIpForward(req, s.client)\<close> (a function of package \<open>sshd\<close> defined in another
  file), the goroutines it starts for a connection, and \<open>req.Reply\<close>, the only way of
  \<open>ssh.Request\<close> to answer a request.
\<close>

datatype sshd_action =
  Log log_line
  | LogRequest string Request
  | HandleTcpIpForward Request "nat option"
  | Reply Request bool
  | GoHandleRequests nat
  | GoHandleChannels nat

text \<open>One round of the loop of \<open>handleRequests\<close>, for the request \<open>req\<close> just received.\<close>

definition handleRequest :: "SshServer \<Rightarrow> Request \<Rightarrow> sshd_action list" where
  "handleRequest s req =
     (if Type req = ''tcpip-forward'' then [HandleTcpIpForward req (client s)]
      else [LogRequest ''[SSHD] recieved out-of-band request: %+v'' req])"

text \<open>
  \<open>handleRequests\<close> on a request stream that delivers \<open>reqs\<close> and is then closed, while
  nothing else writes the server.
\<close>

fun handleRequests :: "SshServer \<Rightarrow> Request list \<Rightarrow> sshd_action list" where
  "handleRequests s [] = []"
| "handleRequests s (req # reqs) = handleRequest s req @ handleRequests s reqs"

text \<open>
  \<open>Start\<close> runs the accept loop in one goroutine and one \<open>handleRequests\<close> goroutine per
  accepted peer, all on the same \<open>SshServer\<close>. The state of this system: the server, the
  peers whose request stream has a running handler, everything done so far, and the
  panic that ended the process, if any.
\<close>

record sshd_state =
  server :: SshServer
  handlers :: "nat list"
  actions :: "sshd_action list"
  panic :: "error option"

text \<open>
  What can happen next: \<open>socket.Accept\<close> fails; \<open>ssh.NewServerConn\<close> fails on the accepted
  socket, or succeeds with a new connection; the handler of a peer receives a request
  from its stream.
\<close>

datatype sshd_event =
  AcceptError error
  | HandshakeError error
  | HandshakeOk nat
  | RequestOn nat Request

fun sshd_step :: "sshd_state \<Rightarrow> sshd_event \<Rightarrow> sshd_state" where
  "sshd_step st (AcceptError err) =
     (if panic st \<noteq> None then st else st\<lparr>panic := Some err\<rparr>)"
| "sshd_step st (HandshakeError err) =
     (if panic st \<noteq> None then st else st\<lparr>actions := actions st @ [Log (''%v'', [])]\<rparr>)"
| "sshd_step st (HandshakeOk sshConn) =
     (if panic st \<noteq> None then st
      else st\<lparr>server := (server st)\<lparr>client := Some sshConn\<rparr>,
              handlers := handlers st @ [sshConn],
              actions := actions st @
                [Log (''[SSHD] Connection from %v'', []),
                 GoHandleRequests sshConn, GoHandleChannels sshConn]\<rparr>)"
| "sshd_step st (RequestOn peer req) =
     (if panic st \<noteq> None \<or> peer \<notin> set (handlers st) then st
      else st\<lparr>actions := actions st @ handleRequest (server st) req\<rparr>)"

text \<open>
  \<open>Start\<close> of \<open>SshServer\<close>: \<open>net.Listen\<close> fails (a panic) or the loop runs; \<open>events\<close> is what happens
  then, in the order it happens.
\<close>

definition SshServer_Start :: "SshServer \<Rightarrow> error option \<Rightarrow> sshd_event list \<Rightarrow> sshd_state" where
  "SshServer_Start s listenErr events =
     (case listenErr of
        Some err \<Rightarrow> \<lparr>server = s, handlers = [], actions = [], panic = Some err\<rparr>
      | None \<Rightarrow>
          foldl sshd_step
            \<lparr>server = s, handlers = [],
             actions = [Log (''[SSHD] Listening on port %s'', [tcpPort s])], panic = None\<rparr>
            events)"

text \<open>The connection of the last handshake that succeeded, among \<open>events\<close>.\<close>

fun last_accepted :: "sshd_event list \<Rightarrow> nat option" where
  "last_accepted [] = None"
| "last_accepted (e # es) =
     (case last_accepted es of
        Some c \<Rightarrow> Some c
      | None \<Rightarrow> (case e of HandshakeOk c \<Rightarrow> Some c | _ \<Rightarrow> None))"

fun is_AcceptError :: "sshd_event \<Rightarrow> bool" where
  "is_AcceptError (AcceptError err) = True"
| "is_AcceptError e = False"

text \<open>
  A small instance of the outside, for running the definitions: two files, an
  authorized-keys format in which every byte is one key, keys whose fingerprint is
  their wire form behind the prefix \<open>SHA256:\<close>, and the two-byte known-hosts format.
\<close>

definition demo_lib :: ssh_lib where
  "demo_lib =
     \<lparr>ReadFile = (\<lambda>path. if path = ''id_rsa'' then Inr ''KEY''
                          else if path = ''authorized_keys'' then Inr ''ab''
                          else if path = ''empty_keys'' then Inr ''''
                          else Inl (OtherError ''no such file'')),
      ParseAuthorizedKey = (\<lambda>bs. case bs of [] \<Rightarrow> Inl (OtherError ''ssh: no key found'')
                                 | c # rest \<Rightarrow> Inr (\<lparr>key_type = ''ssh-rsa'', marshal = [c]\<rparr>, rest)),
      ParsePrivateKey = (\<lambda>bs. Inr bs),
      FingerprintSHA256 = (\<lambda>k. ''SHA256:'' @ marshal k),
      ParseKnownHosts = toy_ParseKnownHosts,
      SerializePublicKey = (\<lambda>k. key_type k @ '' '' @ marshal k)\<rparr>"


text \<open>
  A machine on which the known-hosts file of \<open>demo_conn\<close> records key \<open>k\<close> for host
  \<open>h\<close>, and one on which that file does not exist yet.
\<close>

definition demo_world :: world where
  "demo_world =
     \<lparr>files = [''/home/rospo/.ssh/known_hosts'' \<mapsto> \<lparr>mode = perm_0600, content = ''hk''\<rparr>],
      can_create = (\<lambda>path. True), logged = []\<rparr>"

definition fresh_world :: world where
  "fresh_world = \<lparr>files = Map.empty, can_create = (\<lambda>path. True), logged = []\<rparr>"

section \<open>Tunnel endpoints\<close>

text \<open>\<open>Endpoint\<close> of package \<open>tun\<close>: \<open>Port\<close> is a Go \<open>int\<close>.\<close>

record Endpoint =
  Host :: string
  Port :: int

text \<open>
  What \<open>utils.ParseSSHUrl\<close> returns: \<open>NewEndpoint\<close> reads \<open>Host\<close> and \<open>Port\<close> of it, and
  \<open>NewSshConnection\<close> reads \<open>Username\<close>.
\<close>

record sshUrl = Endpoint +
  Username :: string

text \<open>
  The verb \<open>%d\<close> of \<open>fmt.Sprintf\<close> on an \<open>int\<close>: the decimal digits, most significant
  first, without leading zeros, behind a minus sign if the number is negative.
\<close>

definition digit_char :: "nat \<Rightarrow> char" where
  "digit_char d = char_of (48 + d)"

fun decimal :: "nat \<Rightarrow> string" where
  "decimal n = (if n < 10 then [digit_char n] else decimal (n div 10) @ [digit_char (n mod 10)])"

declare decimal.simps [simp del]

definition fmt_d :: "int \<Rightarrow> string" where
  "fmt_d i = (if i < 0 then CHR ''-'' # decimal (nat (- i)) else decimal (nat i))"

text \<open>\<open>String\<close>: \<open>fmt.Sprintf("%s:%d", endpoint.Host, endpoint.Port)\<close>.\<close>

definition String :: "Endpoint \<Rightarrow> string" where
  "String endpoint = Host endpoint @ '':'' @ fmt_d (Port endpoint)"

text \<open>Reading a port: decimal digits only, at least one, and a value that fits 16 bits.\<close>

definition is_digit :: "char \<Rightarrow> bool" where
  "is_digit c = (48 \<le> (of_char c :: nat) \<and> (of_char c :: nat) \<le> 57)"

definition parse_decimal :: "string \<Rightarrow> nat" where
  "parse_decimal ds = foldl (\<lambda>acc c. 10 * acc + (of_char c - 48)) 0 ds"

definition parse_port :: "string \<Rightarrow> int option" where
  "parse_port ds =
     (if ds \<noteq> [] \<and> list_all is_digit ds \<and> parse_decimal ds \<le> 65535
      then Some (int (parse_decimal ds)) else None)"

text \<open>
  Modelled from the spec: \<open>utils.ParseSSHUrl\<close> is not among the sources. The spec: it
  accepts \<open>user@host:port\<close>, \<open>host:port\<close> and \<open>host\<close>, with an optional \<open>ssh://\<close> scheme;
  it extracts the user name (optional), the host and the port (default 22, a \<open>u16\<close>);
  it rejects malformed input with a parse error that carries the offending string.
  Here the scheme is dropped if it is there; the user name is what stands before the
  first \<open>@\<close>, and is empty if there is none; the host is what then stands before the
  first colon, and the port what stands after it. A host that is empty and a port that
  does not read as above are malformed.
\<close>

definition ParseSSHUrl :: "string \<Rightarrow> error + sshUrl" where
  "ParseSSHUrl url =
     (let rest = (if take 6 url = ''ssh://'' then drop 6 url else url);
          user = (if CHR ''@'' \<in> set rest then takeWhile (\<lambda>c. c \<noteq> CHR ''@'') rest else '''');
          hostport = (if CHR ''@'' \<in> set rest then tl (dropWhile (\<lambda>c. c \<noteq> CHR ''@'') rest)
                      else rest);
          h = takeWhile (\<lambda>c. c \<noteq> CHR '':'') hostport;
          p = (if CHR '':'' \<in> set hostport
               then parse_port (tl (dropWhile (\<lambda>c. c \<noteq> CHR '':'') hostport))
               else Some 22)
      in if h = '''' then Inl (ParseError url)
         else case p of
                None \<Rightarrow> Inl (ParseError url)
              | Some n \<Rightarrow> Inr \<lparr>Host = h, Port = n, Username = user\<rparr>)"

text \<open>
  \<open>NewEndpoint\<close> copies \<open>Host\<close> and \<open>Port\<close> of what the parser returned. It has no
  error result of its own: a parser that rejects its input ends \<open>NewEndpoint\<close> with
  that error.
\<close>

definition NewEndpoint :: "string \<Rightarrow> error + Endpoint" where
  "NewEndpoint s =
     (case ParseSSHUrl s of
        Inl err \<Rightarrow> Inl err
      | Inr parsed \<Rightarrow> Inr \<lparr>Host = Host parsed, Port = Port parsed\<rparr>)"

section \<open>Theorems\<close>

text \<open>
  C8. The auth provider returns, in this order: the public-key method of the identity
  file exactly when the file loads, the password method exactly when the configured
  password is not empty, and the interactive prompt callback, which is always there and
  always last.
\<close>

theorem C8_auth_methods_order:
  "getAuthMethods load s =
     (case load (identity s) of Inr keysAuth \<Rightarrow> [keysAuth] | Inl err \<Rightarrow> [])
     @ (if password s = '''' then [] else [ssh_Password (password s)])
     @ [ssh_PasswordCallback]
   \<and> last (getAuthMethods load s) = ssh_PasswordCallback"
  by (simp add: getAuthMethods_def Let_def split: sum.splits)

subsection \<open>Global requests of the embedded server\<close>

lemma handleRequests_map:
  "handleRequests s reqs =
     map (\<lambda>req. if Type req = ''tcpip-forward'' then HandleTcpIpForward req (client s)
                 else LogRequest ''[SSHD] recieved out-of-band request: %+v'' req) reqs"
  by (induction reqs) (simp_all add: handleRequest_def)

text \<open>
  C4, as the claim states it, fails: a request of another type that asks for a reply is
  logged and nothing more. The keep-alive request \<open>keepalive@rospo\<close> with
  \<open>WantReply = true\<close> produces the log line alone; no \<open>Reply(false)\<close> is sent.
\<close>

theorem C4_other_requests_not_rejected_counterexample:
  "handleRequests \<lparr>authorizedKeysMap = Map.empty, client = Some 0, tcpPort = ''2222''\<rparr>
     [\<lparr>Type = ''keepalive@rospo'', WantReply = True, Payload = ''''\<rparr>]
   = [LogRequest ''[SSHD] recieved out-of-band request: %+v''
        \<lparr>Type = ''keepalive@rospo'', WantReply = True, Payload = ''''\<rparr>]
   \<and> Reply \<lparr>Type = ''keepalive@rospo'', WantReply = True, Payload = ''''\<rparr> False
       \<notin> set (handleRequests \<lparr>authorizedKeysMap = Map.empty, client = Some 0, tcpPort = ''2222''\<rparr>
            [\<lparr>Type = ''keepalive@rospo'', WantReply = True, Payload = ''''\<rparr>])"
  by (simp add: handleRequest_def)

text \<open>
  C4, amended. Every \<open>tcpip-forward\<close> request is handed to \<open>handleTcpIpForward\<close> with
  the server's \<open>client\<close> field; every request of another type is logged, once, and
  that is all: \<open>handleRequests\<close> itself never replies to a request, whether or not the
  request wants a reply.
\<close>

theorem C4_requests_forwarded_or_only_logged:
  "handleRequests s reqs =
     map (\<lambda>req. if Type req = ''tcpip-forward'' then HandleTcpIpForward req (client s)
                 else LogRequest ''[SSHD] recieved out-of-band request: %+v'' req) reqs
   \<and> (\<forall>req ok. Reply req ok \<notin> set (handleRequests s reqs))"
  by (auto simp add: handleRequests_map)

subsection \<open>Public-key authentication of the embedded server\<close>








subsection \<open>The single peer handle of the embedded server\<close>

lemma sshd_step_panic:
  "panic st = None \<Longrightarrow> \<not> is_AcceptError e \<Longrightarrow> panic (sshd_step st e) = None"
  by (cases e) simp_all

lemma sshd_step_client:
  "panic st = None \<Longrightarrow>
   client (server (sshd_step st e)) = (case e of HandshakeOk c \<Rightarrow> Some c | _ \<Rightarrow> client (server st))"
  by (cases e) simp_all

lemma sshd_run_panic:
  "panic st = None \<Longrightarrow> list_all (\<lambda>e. \<not> is_AcceptError e) es \<Longrightarrow>
   panic (foldl sshd_step st es) = None"
  by (induction es arbitrary: st) (simp_all add: sshd_step_panic)

lemma sshd_run_client:
  "panic st = None \<Longrightarrow> list_all (\<lambda>e. \<not> is_AcceptError e) es \<Longrightarrow>
   client (server (foldl sshd_step st es)) =
     (case last_accepted es of Some c \<Rightarrow> Some c | None \<Rightarrow> client (server st))"
proof (induction es arbitrary: st)
  case Nil
  then show ?case by simp
next
  case (Cons e es)
  from Cons.prems have p: "panic (sshd_step st e) = None"
    and r: "list_all (\<lambda>e. \<not> is_AcceptError e) es"
    by (simp_all add: sshd_step_panic)
  show ?case
    using Cons.IH[OF p r] sshd_step_client[OF Cons.prems(1), of e]
    by (simp split: option.splits sshd_event.splits)
qed

text \<open>
  C10. A handshake that succeeds overwrites the one \<open>client\<close> field. While the accept
  loop runs (no \<open>Accept\<close> error has ended the process), after at least one handshake
  the field is the connection accepted last, and a \<open>tcpip-forward\<close> request then taken
  from the request stream of any peer with a running handler, an earlier peer included,
  is handed to \<open>handleTcpIpForward\<close> with that last connection.
\<close>

theorem C10_forward_uses_last_accepted_peer:
  "(panic st = None \<longrightarrow> client (server (sshd_step st (HandshakeOk c))) = Some c)
   \<and> (list_all (\<lambda>e. \<not> is_AcceptError e) es \<and> last_accepted es = Some c \<longrightarrow>
        client (server (SshServer_Start s None es)) = Some c
        \<and> (peer \<in> set (handlers (SshServer_Start s None es)) \<and> Type req = ''tcpip-forward'' \<longrightarrow>
             actions (SshServer_Start s None (es @ [RequestOn peer req])) =
               actions (SshServer_Start s None es) @ [HandleTcpIpForward req (Some c)]))"
proof (intro conjI impI)
  assume "panic st = None"
  then show "client (server (sshd_step st (HandshakeOk c))) = Some c" by simp
next
  let ?st0 = "\<lparr>server = s, handlers = [],
             actions = [Log (''[SSHD] Listening on port %s'', [tcpPort s])], panic = None\<rparr>"
  assume a: "list_all (\<lambda>e. \<not> is_AcceptError e) es \<and> last_accepted es = Some c"
  have p: "panic (foldl sshd_step ?st0 es) = None"
    using a by (simp add: sshd_run_panic)
  have c: "client (server (foldl sshd_step ?st0 es)) = Some c"
    using a sshd_run_client[of ?st0 es] by simp
  show "client (server (SshServer_Start s None es)) = Some c"
    using c by (simp add: SshServer_Start_def)
  assume b: "peer \<in> set (handlers (SshServer_Start s None es)) \<and> Type req = ''tcpip-forward''"
  show "actions (SshServer_Start s None (es @ [RequestOn peer req])) =
               actions (SshServer_Start s None es) @ [HandleTcpIpForward req (Some c)]"
    using b p c by (simp add: SshServer_Start_def handleRequest_def)
qed

theorem C10_forward_uses_last_accepted_peer_witness:
  "client (server (sshd_step \<lparr>server = \<lparr>authorizedKeysMap = Map.empty, client = Some 1, tcpPort = ''2222''\<rparr>,
        handlers = [1], actions = [], panic = None\<rparr> (HandshakeOk 2))) = Some 2
   \<and> client (server (SshServer_Start \<lparr>authorizedKeysMap = Map.empty, client = None, tcpPort = ''2222''\<rparr> None
         [HandshakeOk 1, HandshakeError (OtherError ''EOF''), HandshakeOk 2])) = Some 2
   \<and> 1 \<in> set (handlers (SshServer_Start \<lparr>authorizedKeysMap = Map.empty, client = None, tcpPort = ''2222''\<rparr> None
         [HandshakeOk 1, HandshakeError (OtherError ''EOF''), HandshakeOk 2]))
   \<and> actions (SshServer_Start \<lparr>authorizedKeysMap = Map.empty, client = None, tcpPort = ''2222''\<rparr> None
         ([HandshakeOk 1, HandshakeError (OtherError ''EOF''), HandshakeOk 2]
          @ [RequestOn 1 \<lparr>Type = ''tcpip-forward'', WantReply = True, Payload = ''''\<rparr>]))
     = actions (SshServer_Start \<lparr>authorizedKeysMap = Map.empty, client = None, tcpPort = ''2222''\<rparr> None
         [HandshakeOk 1, HandshakeError (OtherError ''EOF''), HandshakeOk 2])
       @ [HandleTcpIpForward \<lparr>Type = ''tcpip-forward'', WantReply = True, Payload = ''''\<rparr> (Some 2)]"
  using C10_forward_uses_last_accepted_peer
    [of "\<lparr>server = \<lparr>authorizedKeysMap = Map.empty, client = Some 1, tcpPort = ''2222''\<rparr>,
        handlers = [1], actions = [], panic = None\<rparr>" 2
        "[HandshakeOk 1, HandshakeError (OtherError ''EOF''), HandshakeOk 2]"
        "\<lparr>authorizedKeysMap = Map.empty, client = None, tcpPort = ''2222''\<rparr>"
        1 "\<lparr>Type = ''tcpip-forward'', WantReply = True, Payload = ''''\<rparr>"]
  by (simp add: SshServer_Start_def)

subsection \<open>Status, readiness latch and client handle of the connection manager\<close>

lemma STATUS_distinct [simp]:
  "STATUS_CLOSED \<noteq> STATUS_CONNECTED" "STATUS_CONNECTING \<noteq> STATUS_CONNECTED"
  by (simp_all add: STATUS_CLOSED_def STATUS_CONNECTED_def STATUS_CONNECTING_def)

lemma sshc_inv_init: "sshc_inv (sshc_init (NewSshConnection u h x conf))"
  by (simp add: sshc_inv_def sshc_init_def NewSshConnection_def Let_def)

lemma sshc_inv_start_step: "sshc_inv \<sigma> \<Longrightarrow> sshc_inv (start_step \<sigma>)"
  by (cases "start_at \<sigma>")
     (auto simp add: sshc_inv_def start_step_def Let_def resetConn_close_def resetConn_status_def
           split: option.splits)

lemma sshc_inv_step: "sshc_inv \<sigma> \<Longrightarrow> sshc_inv (sshc_step \<sigma> e)"
proof (cases e)
  case StartStep
  assume "sshc_inv \<sigma>"
  then show ?thesis using StartStep by (simp add: sshc_inv_start_step)
next
  case CallStart
  assume "sshc_inv \<sigma>"
  then show ?thesis using CallStart by (auto simp add: sshc_inv_def Let_def)
next
  case (ConnectReturns dialed)
  assume "sshc_inv \<sigma>"
  then show ?thesis using ConnectReturns
    by (cases dialed) (auto simp add: sshc_inv_def Let_def connect_def)
next
  case (SendRequestReturns r)
  assume "sshc_inv \<sigma>"
  then show ?thesis using SendRequestReturns
    by (cases r) (auto simp add: sshc_inv_def Let_def split: option.splits)
next
  case CallStop
  assume "sshc_inv \<sigma>"
  then show ?thesis using CallStop
    by (cases "start_at \<sigma>") (auto simp add: sshc_inv_def Let_def)
next
  case StopStep
  assume "sshc_inv \<sigma>"
  then show ?thesis using StopStep
    by (cases "start_at \<sigma>"; cases "stop_at \<sigma>")
       (auto simp add: sshc_inv_def Let_def resetConn_close_def resetConn_status_def
             split: option.splits)
qed

lemma sshc_inv_run: "sshc_inv \<sigma> \<Longrightarrow> sshc_inv (foldl sshc_step \<sigma> es)"
  by (induction es arbitrary: \<sigma>) (simp_all add: sshc_inv_step)

lemma sshc_inv_D:
  assumes "sshc_inv \<sigma>"
  shows "(connectionStatus (ssh_conn \<sigma>) = STATUS_CONNECTED \<longrightarrow> connected (ssh_conn \<sigma>) = 0)
       \<and> (connected (ssh_conn \<sigma>) = 0 \<longrightarrow> Client (ssh_conn \<sigma>) \<noteq> None)
       \<and> start_at \<sigma> \<noteq> StartPanicked"
  using assms by (cases "start_at \<sigma>") (auto simp add: sshc_inv_def Let_def)

text \<open>No statement of \<open>Start\<close> or \<open>Stop\<close> stores nil in \<open>Client\<close>.\<close>

lemma sshc_step_Client:
  "Client (ssh_conn \<sigma>) \<noteq> None \<Longrightarrow> Client (ssh_conn (sshc_step \<sigma> e)) \<noteq> None"
proof (cases e)
  case StartStep
  assume "Client (ssh_conn \<sigma>) \<noteq> None"
  then show ?thesis using StartStep
    by (cases "start_at \<sigma>")
       (auto simp add: start_step_def Let_def resetConn_close_def resetConn_status_def
             split: option.splits)
next
  case (ConnectReturns dialed)
  assume "Client (ssh_conn \<sigma>) \<noteq> None"
  then show ?thesis using ConnectReturns by (cases dialed) (auto simp add: connect_def)
next
  case (SendRequestReturns r)
  assume "Client (ssh_conn \<sigma>) \<noteq> None"
  then show ?thesis using SendRequestReturns by (cases r) (auto split: option.splits)
next
  case StopStep
  assume "Client (ssh_conn \<sigma>) \<noteq> None"
  then show ?thesis using StopStep
    by (cases "stop_at \<sigma>")
       (auto simp add: resetConn_close_def resetConn_status_def split: option.splits)
qed auto

lemma sshc_run_Client:
  "Client (ssh_conn \<sigma>) \<noteq> None \<Longrightarrow> Client (ssh_conn (foldl sshc_step \<sigma> es)) \<noteq> None"
proof (induction es arbitrary: \<sigma>)
  case Nil
  then show ?case by simp
next
  case (Cons e es)
  from Cons.prems have "Client (ssh_conn (sshc_step \<sigma> e)) \<noteq> None"
    by (rule sshc_step_Client)
  from Cons.IH[OF this] show ?case by simp
qed

text \<open>
  C1, as the claim states it, fails. After a connect that succeeded and a keep-alive
  request that failed, \<open>Start\<close> is back at the head of its loop: the status is \<open>Closed\<close>
  and the latch is armed, but the client handle is still the closed client, not nil.
  After a connect that succeeded and a complete \<open>Stop()\<close>, the status is \<open>Closed\<close> while
  the handle is not nil and the latch is still released.
\<close>

theorem C1_client_not_null_after_disconnect_counterexample:
  "connectionStatus (ssh_conn (sshc_run demo_conn
       ([CallStart, StartStep, StartStep] @ connect_succeeds 7
        @ [SendRequestReturns (Some (OtherError ''EOF'')), StartStep, StartStep, StartStep])))
     = STATUS_CLOSED
   \<and> STATUS_CLOSED \<noteq> STATUS_CONNECTED
   \<and> connected (ssh_conn (sshc_run demo_conn
       ([CallStart, StartStep, StartStep] @ connect_succeeds 7
        @ [SendRequestReturns (Some (OtherError ''EOF'')), StartStep, StartStep, StartStep])))
     = 1
   \<and> Client (ssh_conn (sshc_run demo_conn
       ([CallStart, StartStep, StartStep] @ connect_succeeds 7
        @ [SendRequestReturns (Some (OtherError ''EOF'')), StartStep, StartStep, StartStep])))
     = Some 7
   \<and> connectionStatus (ssh_conn (sshc_run demo_conn
       ([CallStart, StartStep, StartStep] @ connect_succeeds 7 @ [CallStop, StopStep, StopStep])))
     = STATUS_CLOSED
   \<and> stop_at (sshc_run demo_conn
       ([CallStart, StartStep, StartStep] @ connect_succeeds 7 @ [CallStop, StopStep, StopStep]))
     = StopIdle
   \<and> connected (ssh_conn (sshc_run demo_conn
       ([CallStart, StartStep, StartStep] @ connect_succeeds 7 @ [CallStop, StopStep, StopStep])))
     = 0
   \<and> Client (ssh_conn (sshc_run demo_conn
       ([CallStart, StartStep, StartStep] @ connect_succeeds 7 @ [CallStop, StopStep, StopStep])))
     = Some 7"
  by (simp add: sshc_run_def sshc_init_def demo_conn_def demo_conf_def NewSshConnection_def
        connect_succeeds_def start_step_def connect_def resetConn_close_def resetConn_status_def
        Let_def)

text \<open>
  C1, amended. For a connection made by \<open>NewSshConnection\<close>, at every point of every
  run of \<open>Start\<close> and \<open>Stop\<close>: if the status is \<open>Connected\<close> then the readiness latch is
  released, and if the latch is released then the client handle is not nil. The handle
  is never set back to nil: once it is not nil it stays so, through every disconnect
  and every \<open>Stop()\<close>.
\<close>

theorem C1_connected_implies_released_implies_client:
  "(connectionStatus (ssh_conn (sshc_run (NewSshConnection u h x conf) events)) = STATUS_CONNECTED
      \<longrightarrow> connected (ssh_conn (sshc_run (NewSshConnection u h x conf) events)) = 0)
   \<and> (connected (ssh_conn (sshc_run (NewSshConnection u h x conf) events)) = 0
      \<longrightarrow> Client (ssh_conn (sshc_run (NewSshConnection u h x conf) events)) \<noteq> None)
   \<and> (Client (ssh_conn (sshc_run (NewSshConnection u h x conf) events)) \<noteq> None
      \<longrightarrow> Client (ssh_conn (sshc_run (NewSshConnection u h x conf) (events @ later))) \<noteq> None)"
proof -
  have "sshc_inv (sshc_run (NewSshConnection u h x conf) events)"
    unfolding sshc_run_def by (rule sshc_inv_run) (rule sshc_inv_init)
  from sshc_inv_D[OF this] show ?thesis
    by (simp add: sshc_run_def sshc_run_Client)
qed

theorem C1_connected_implies_released_implies_client_witness:
  "connectionStatus (ssh_conn (sshc_run demo_conn
       ([CallStart, StartStep, StartStep] @ connect_succeeds 7))) = STATUS_CONNECTED
   \<and> connected (ssh_conn (sshc_run demo_conn
       ([CallStart, StartStep, StartStep] @ connect_succeeds 7))) = 0
   \<and> Client (ssh_conn (sshc_run demo_conn
       ([CallStart, StartStep, StartStep] @ connect_succeeds 7))) \<noteq> None
   \<and> Client (ssh_conn (sshc_run demo_conn
       (([CallStart, StartStep, StartStep] @ connect_succeeds 7)
        @ [CallStop, StopStep, StopStep]))) \<noteq> None"
proof -
  have s: "connectionStatus (ssh_conn (sshc_run demo_conn
       ([CallStart, StartStep, StartStep] @ connect_succeeds 7))) = STATUS_CONNECTED"
    by (simp add: sshc_run_def sshc_init_def demo_conn_def demo_conf_def NewSshConnection_def
          connect_succeeds_def start_step_def connect_def Let_def)
  show ?thesis
    using s C1_connected_implies_released_implies_client
      [of "\<lambda>uri. takeWhile (\<lambda>c. c \<noteq> CHR ''@'') uri" "''/home/rospo''" "\<lambda>p. p" demo_conf
          "[CallStart, StartStep, StartStep] @ connect_succeeds 7"
          "[CallStop, StopStep, StopStep]"]
    by (simp add: demo_conn_def)
qed

text \<open>
  The three steps of a \<open>Stop()\<close> that nothing interrupts are \<open>Stop\<close> as the source
  writes it.
\<close>

lemma Stop_steps:
  "stop_at \<sigma> = StopIdle \<Longrightarrow> foldl sshc_step \<sigma> [CallStop, StopStep, StopStep] = Stop \<sigma>"
  by (cases \<sigma>)
     (simp add: Stop_def resetConn_def resetConn_close_def resetConn_status_def
           split: option.splits)

subsection \<open>The supervision loop of the connection manager\<close>

lemma failed_attempt_run:
  assumes "start_at \<sigma> = Connecting" "\<not> isStopped (ssh_conn \<sigma>)"
  shows "foldl sshc_step \<sigma> (failed_attempt err) =
           \<sigma>\<lparr>ssh_conn := (ssh_conn \<sigma>)\<lparr>connectionStatus := STATUS_CONNECTING\<rparr>,
             ssh_trace := ssh_trace \<sigma> @ [LogPrintf ''error while connecting %s'',
                                          Sleep (reconnectionInterval (ssh_conn \<sigma>))]\<rparr>"
  using assms by (cases \<sigma>) (simp add: failed_attempt_def start_step_def connect_def Let_def)

lemma failed_attempts_run:
  assumes "start_at \<sigma> = Connecting" "\<not> isStopped (ssh_conn \<sigma>)"
  shows "foldl sshc_step \<sigma> (concat (map failed_attempt errs)) =
           \<sigma>\<lparr>ssh_conn := (if errs = [] then ssh_conn \<sigma>
                           else (ssh_conn \<sigma>)\<lparr>connectionStatus := STATUS_CONNECTING\<rparr>),
             ssh_trace := ssh_trace \<sigma> @
               concat (map (\<lambda>err. [LogPrintf ''error while connecting %s'',
                                    Sleep (reconnectionInterval (ssh_conn \<sigma>))]) errs)\<rparr>"
  using assms
proof (induction errs arbitrary: \<sigma>)
  case Nil
  then show ?case by simp
next
  case (Cons err errs)
  let ?\<sigma>1 = "foldl sshc_step \<sigma> (failed_attempt err)"
  have 1: "?\<sigma>1 = \<sigma>\<lparr>ssh_conn := (ssh_conn \<sigma>)\<lparr>connectionStatus := STATUS_CONNECTING\<rparr>,
             ssh_trace := ssh_trace \<sigma> @ [LogPrintf ''error while connecting %s'',
                                          Sleep (reconnectionInterval (ssh_conn \<sigma>))]\<rparr>"
    using Cons.prems by (rule failed_attempt_run)
  have a: "start_at ?\<sigma>1 = Connecting" "\<not> isStopped (ssh_conn ?\<sigma>1)"
    using Cons.prems by (simp_all add: 1)
  show ?case
    using Cons.IH[OF a] by (simp add: 1)
qed

lemma connect_succeeds_run:
  assumes "start_at \<sigma> = Connecting" "connected (ssh_conn \<sigma>) = 1"
  shows "foldl sshc_step \<sigma> (connect_succeeds c) =
           \<sigma>\<lparr>ssh_conn := (ssh_conn \<sigma>)\<lparr>Client := Some c, connected := 0,
                                        connectionStatus := STATUS_CONNECTED\<rparr>,
             ssh_trace := ssh_trace \<sigma> @ [LogPrintf ''starting client keep alive''],
             start_at := KeepAliveSend\<rparr>"
  using assms by (cases \<sigma>) (simp add: connect_succeeds_def start_step_def connect_def Let_def)

lemma keepalive_round_run:
  assumes "start_at \<sigma> = KeepAliveSend" "Client (ssh_conn \<sigma>) = Some c"
  shows "foldl sshc_step \<sigma> keepalive_round =
           \<sigma>\<lparr>ssh_trace := ssh_trace \<sigma> @ [SendRequest c ''keepalive@rospo'' True,
                                          Sleep (keepAliveInterval (ssh_conn \<sigma>))]\<rparr>"
  using assms by (cases \<sigma>) (simp add: keepalive_round_def start_step_def Let_def)

lemma keepalive_rounds_run:
  assumes "start_at \<sigma> = KeepAliveSend" "Client (ssh_conn \<sigma>) = Some c"
  shows "foldl sshc_step \<sigma> (concat (replicate n keepalive_round)) =
           \<sigma>\<lparr>ssh_trace := ssh_trace \<sigma> @
               concat (replicate n [SendRequest c ''keepalive@rospo'' True,
                                    Sleep (keepAliveInterval (ssh_conn \<sigma>))])\<rparr>"
  using assms
proof (induction n arbitrary: \<sigma>)
  case 0
  then show ?case by simp
next
  case (Suc n)
  let ?\<sigma>1 = "foldl sshc_step \<sigma> keepalive_round"
  have 1: "?\<sigma>1 = \<sigma>\<lparr>ssh_trace := ssh_trace \<sigma> @ [SendRequest c ''keepalive@rospo'' True,
                                          Sleep (keepAliveInterval (ssh_conn \<sigma>))]\<rparr>"
    using Suc.prems by (rule keepalive_round_run)
  have a: "start_at ?\<sigma>1 = KeepAliveSend" "Client (ssh_conn ?\<sigma>1) = Some c"
    using Suc.prems by (simp_all add: 1)
  show ?case
    using Suc.IH[OF a] by (simp add: 1)
qed

lemma keepalive_fails_run:
  assumes "start_at \<sigma> = KeepAliveSend" "Client (ssh_conn \<sigma>) = Some c"
    "\<not> isStopped (ssh_conn \<sigma>)"
  shows "foldl sshc_step \<sigma> (keepalive_fails err) =
           \<sigma>\<lparr>ssh_conn := (ssh_conn \<sigma>)\<lparr>connected := connected (ssh_conn \<sigma>) + 1,
                                        connectionStatus := STATUS_CONNECTING\<rparr>,
             ssh_trace := ssh_trace \<sigma> @ [SendRequest c ''keepalive@rospo'' True,
                                          LogPrintf ''error while sending keep alive %s'',
                                          CloseClient c],
             start_at := Connecting\<rparr>"
  using assms
  by (cases \<sigma>)
     (simp add: keepalive_fails_def start_step_def resetConn_close_def resetConn_status_def Let_def)

text \<open>
  C5. Let \<open>Start\<close> be at its connect attempt, not stopped, with the latch armed, and
  let no \<open>Stop()\<close> come in between. Then any number of failed attempts leaves it at a
  connect attempt again, each failure followed by the error line and a sleep of
  \<open>reconnectionInterval\<close>. When an attempt then succeeds with client \<open>c\<close>, the status is
  \<open>Connected\<close>, the latch is released, and any number of keep-alive rounds sends the
  global request \<open>keepalive@rospo\<close> (reply wanted) on \<open>c\<close>, each followed by a sleep of
  \<open>keepAliveInterval\<close>. When a keep-alive request then fails, \<open>keepAlive\<close> returns, the
  client \<open>c\<close> is closed, the latch is armed again, and \<open>Start\<close> is at its next connect
  attempt, with status \<open>Connecting...\<close>.
\<close>

theorem C5_supervision_loop:
  assumes "start_at \<sigma> = Connecting" and "\<not> isStopped (ssh_conn \<sigma>)"
    and "connected (ssh_conn \<sigma>) = 1"
  shows
    "start_at (foldl sshc_step \<sigma> (concat (map failed_attempt errs))) = Connecting
     \<and> ssh_trace (foldl sshc_step \<sigma> (concat (map failed_attempt errs))) =
         ssh_trace \<sigma> @
         concat (map (\<lambda>err. [LogPrintf ''error while connecting %s'',
                              Sleep (reconnectionInterval (ssh_conn \<sigma>))]) errs)
     \<and> (let \<sigma>1 = foldl sshc_step \<sigma>
                    (concat (map failed_attempt errs) @ connect_succeeds c
                     @ concat (replicate n keepalive_round))
        in start_at \<sigma>1 = KeepAliveSend
           \<and> connectionStatus (ssh_conn \<sigma>1) = STATUS_CONNECTED
           \<and> connected (ssh_conn \<sigma>1) = 0
           \<and> Client (ssh_conn \<sigma>1) = Some c
           \<and> ssh_trace \<sigma>1 =
               ssh_trace (foldl sshc_step \<sigma> (concat (map failed_attempt errs)))
               @ [LogPrintf ''starting client keep alive'']
               @ concat (replicate n [SendRequest c ''keepalive@rospo'' True,
                                      Sleep (keepAliveInterval (ssh_conn \<sigma>))])
           \<and> (let \<sigma>2 = foldl sshc_step \<sigma>1 (keepalive_fails err)
              in ssh_trace \<sigma>2 =
                   ssh_trace \<sigma>1 @ [SendRequest c ''keepalive@rospo'' True,
                                    LogPrintf ''error while sending keep alive %s'',
                                    CloseClient c]
                 \<and> connectionStatus (ssh_conn \<sigma>2) = STATUS_CONNECTING
                 \<and> connected (ssh_conn \<sigma>2) = 1
                 \<and> start_at \<sigma>2 = Connecting))"
proof -
  let ?A = "foldl sshc_step \<sigma> (concat (map failed_attempt errs))"
  have A: "?A = \<sigma>\<lparr>ssh_conn := (if errs = [] then ssh_conn \<sigma>
                           else (ssh_conn \<sigma>)\<lparr>connectionStatus := STATUS_CONNECTING\<rparr>),
             ssh_trace := ssh_trace \<sigma> @
               concat (map (\<lambda>err. [LogPrintf ''error while connecting %s'',
                                    Sleep (reconnectionInterval (ssh_conn \<sigma>))]) errs)\<rparr>"
    using assms(1,2) by (rule failed_attempts_run)
  have A1: "start_at ?A = Connecting" "\<not> isStopped (ssh_conn ?A)" "connected (ssh_conn ?A) = 1"
    "keepAliveInterval (ssh_conn ?A) = keepAliveInterval (ssh_conn \<sigma>)"
    using assms by (simp_all add: A)
  let ?B = "foldl sshc_step ?A (connect_succeeds c)"
  have B: "?B = ?A\<lparr>ssh_conn := (ssh_conn ?A)\<lparr>Client := Some c, connected := 0,
                                        connectionStatus := STATUS_CONNECTED\<rparr>,
             ssh_trace := ssh_trace ?A @ [LogPrintf ''starting client keep alive''],
             start_at := KeepAliveSend\<rparr>"
    using A1(1,3) by (rule connect_succeeds_run)
  have B1: "start_at ?B = KeepAliveSend" "Client (ssh_conn ?B) = Some c"
    "\<not> isStopped (ssh_conn ?B)" "connected (ssh_conn ?B) = 0"
    "connectionStatus (ssh_conn ?B) = STATUS_CONNECTED"
    "keepAliveInterval (ssh_conn ?B) = keepAliveInterval (ssh_conn \<sigma>)"
    "ssh_trace ?B = ssh_trace ?A @ [LogPrintf ''starting client keep alive'']"
    using A1 by (simp_all add: B)
  let ?C = "foldl sshc_step ?B (concat (replicate n keepalive_round))"
  have C: "?C = ?B\<lparr>ssh_trace := ssh_trace ?B @
               concat (replicate n [SendRequest c ''keepalive@rospo'' True,
                                    Sleep (keepAliveInterval (ssh_conn ?B))])\<rparr>"
    using B1(1,2) by (rule keepalive_rounds_run)
  have C1: "start_at ?C = KeepAliveSend" "Client (ssh_conn ?C) = Some c"
    "\<not> isStopped (ssh_conn ?C)" "connected (ssh_conn ?C) = 0"
    "connectionStatus (ssh_conn ?C) = STATUS_CONNECTED"
    "ssh_trace ?C = ssh_trace ?A @ [LogPrintf ''starting client keep alive'']
       @ concat (replicate n [SendRequest c ''keepalive@rospo'' True,
                              Sleep (keepAliveInterval (ssh_conn \<sigma>))])"
    using B1 by (simp_all add: C)
  let ?D = "foldl sshc_step ?C (keepalive_fails err)"
  have D: "?D = ?C\<lparr>ssh_conn := (ssh_conn ?C)\<lparr>connected := connected (ssh_conn ?C) + 1,
                                        connectionStatus := STATUS_CONNECTING\<rparr>,
             ssh_trace := ssh_trace ?C @ [SendRequest c ''keepalive@rospo'' True,
                                          LogPrintf ''error while sending keep alive %s'',
                                          CloseClient c],
             start_at := Connecting\<rparr>"
    using C1(1,2,3) by (rule keepalive_fails_run)
  have D1: "ssh_trace ?D = ssh_trace ?C @ [SendRequest c ''keepalive@rospo'' True,
                                          LogPrintf ''error while sending keep alive %s'',
                                          CloseClient c]"
    "connectionStatus (ssh_conn ?D) = STATUS_CONNECTING" "connected (ssh_conn ?D) = 1"
    "start_at ?D = Connecting"
    using C1(4) by (simp_all add: D)
  have split: "foldl sshc_step \<sigma> (concat (map failed_attempt errs) @ connect_succeeds c
                     @ concat (replicate n keepalive_round)) = ?C"
    by simp
  show ?thesis
    unfolding Let_def split
    using A1(1) C1 D1 by (simp add: A)
qed

lemma demo_conn_eq:
  "demo_conn =
     \<lparr>username = ''rospo'', identity = ''/home/rospo/.ssh/id_rsa'', password = '''',
      knownHosts = ''/home/rospo/.ssh/known_hosts'', insecure = False, quiet = False,
      jumpHosts = [], reconnectionInterval = 5000000000, keepAliveInterval = 5000000000,
      Client = None, connected = 1, connectionStatus = STATUS_CONNECTING, isStopped = True\<rparr>"
  by (simp add: demo_conn_def demo_conf_def NewSshConnection_def Second_def)

theorem C5_supervision_loop_witness:
  "start_at (sshc_run demo_conn [CallStart, StartStep, StartStep]) = Connecting
   \<and> \<not> isStopped (ssh_conn (sshc_run demo_conn [CallStart, StartStep, StartStep]))
   \<and> connected (ssh_conn (sshc_run demo_conn [CallStart, StartStep, StartStep])) = 1
   \<and> start_at (foldl sshc_step (sshc_run demo_conn [CallStart, StartStep, StartStep])
        (concat (map failed_attempt [OtherError ''connection refused'', OtherError ''i/o timeout''])))
      = Connecting
   \<and> ssh_trace (foldl sshc_step (sshc_run demo_conn [CallStart, StartStep, StartStep])
        (concat (map failed_attempt [OtherError ''connection refused'', OtherError ''i/o timeout''])))
      = [LogPrintf ''error while connecting %s'', Sleep 5000000000,
         LogPrintf ''error while connecting %s'', Sleep 5000000000]
   \<and> ssh_trace (foldl sshc_step (sshc_run demo_conn [CallStart, StartStep, StartStep])
        (concat (map failed_attempt [OtherError ''connection refused'', OtherError ''i/o timeout''])
         @ connect_succeeds 7 @ concat (replicate (Suc (Suc 0)) keepalive_round)))
      = [LogPrintf ''error while connecting %s'', Sleep 5000000000,
         LogPrintf ''error while connecting %s'', Sleep 5000000000,
         LogPrintf ''starting client keep alive'',
         SendRequest 7 ''keepalive@rospo'' True, Sleep 5000000000,
         SendRequest 7 ''keepalive@rospo'' True, Sleep 5000000000]
   \<and> start_at (foldl sshc_step
        (foldl sshc_step (sshc_run demo_conn [CallStart, StartStep, StartStep])
          (concat (map failed_attempt [OtherError ''connection refused'', OtherError ''i/o timeout''])
           @ connect_succeeds 7 @ concat (replicate (Suc (Suc 0)) keepalive_round)))
        (keepalive_fails (OtherError ''EOF''))) = Connecting
   \<and> connected (ssh_conn (foldl sshc_step
        (foldl sshc_step (sshc_run demo_conn [CallStart, StartStep, StartStep])
          (concat (map failed_attempt [OtherError ''connection refused'', OtherError ''i/o timeout''])
           @ connect_succeeds 7 @ concat (replicate (Suc (Suc 0)) keepalive_round)))
        (keepalive_fails (OtherError ''EOF'')))) = 1"
proof -
  let ?\<sigma> = "sshc_run demo_conn [CallStart, StartStep, StartStep]"
  have \<sigma>: "?\<sigma> = \<lparr>ssh_conn = demo_conn\<lparr>isStopped := False, connectionStatus := STATUS_CONNECTING\<rparr>,
                   ssh_trace = [], start_at = Connecting, stop_at = StopIdle\<rparr>"
    by (simp add: sshc_run_def sshc_init_def start_step_def Let_def demo_conn_eq)
  have h1: "start_at ?\<sigma> = Connecting" by (simp only: \<sigma>) simp
  have h2: "\<not> isStopped (ssh_conn ?\<sigma>)" by (simp only: \<sigma>) simp
  have h3: "connected (ssh_conn ?\<sigma>) = 1" by (simp only: \<sigma>) (simp add: demo_conn_eq)
  have i: "reconnectionInterval (ssh_conn ?\<sigma>) = 5000000000"
    "keepAliveInterval (ssh_conn ?\<sigma>) = 5000000000" "ssh_trace ?\<sigma> = []"
    by (simp_all only: \<sigma>) (simp_all add: demo_conn_eq)
  show ?thesis
    using C5_supervision_loop[OF h1 h2 h3,
        of "[OtherError ''connection refused'', OtherError ''i/o timeout'']" 7 "Suc (Suc 0)"
           "OtherError ''EOF''"] h1 h2 h3 i
    by (simp add: Let_def)
qed

subsection \<open>Strict host-key verification\<close>

text \<open>When the known-hosts file is there and parses, the callback is the second half alone.\<close>

lemma open_known_hosts_present:
  assumes "files w (knownHosts s) = Some f" "ParseKnownHosts lib (content f) = Inr clb"
  shows "open_known_hosts lib s w = (Returned clb, w)"
  using assms by (simp add: open_known_hosts_def knownhosts_New_def)

lemma verifyHostCallback_present:
  assumes "\<not> insecure s" "files w (knownHosts s) = Some f"
    "ParseKnownHosts lib (content f) = Inr clb"
  shows "verifyHostCallback lib addHostKey s fail host remote key w =
           check_host_key lib addHostKey s fail clb host remote key
             (log_Printf w (''using known_hosts file at %s'', [knownHosts s]))"
proof -
  let ?w = "log_Printf w (''using known_hosts file at %s'', [knownHosts s])"
  have "files ?w (knownHosts s) = Some f" using assms(2) by (simp add: log_Printf_def)
  from open_known_hosts_present[OF this assms(3)]
  show ?thesis using assms(1) by (simp add: verifyHostCallback_def Let_def)
qed

lemma demo_known_hosts_cb:
  "ParseKnownHosts demo_lib ''hk'' = Inr (\<lambda>host remote key.
      let want = map (\<lambda>(h, k). \<lparr>key_type = ''ssh-rsa'', marshal = [k]\<rparr>)
                     (filter (\<lambda>(h, k). [h] = host) [(CHR ''h'', CHR ''k'')])
      in if want = [] then Some (KeyError [])
         else if key \<in> set want then None
         else Some (KeyError want))"
  by (simp add: demo_lib_def toy_ParseKnownHosts_def)

text \<open>
  C2, as the claim states it, fails, in both halves. Host \<open>x\<close> is not recorded in the
  store. The callback built for a client dial does not accept: it ends the process with
  the fatal message, and the store is as it was. The callback built by \<open>GrabPubKey\<close>
  accepts, and the store has grown by the entry for \<open>x\<close>.
\<close>

theorem C2_dial_does_not_trust_on_first_use_counterexample:
  "fst (connect_HostKeyCallback demo_lib (AddHostKeyToKnownHosts toy_line) demo_conn
          ''x'' ''10.0.0.1:22'' \<lparr>key_type = ''ssh-rsa'', marshal = ''y''\<rparr> demo_world)
     = Fatal not_trusted_format
   \<and> files (snd (connect_HostKeyCallback demo_lib (AddHostKeyToKnownHosts toy_line) demo_conn
          ''x'' ''10.0.0.1:22'' \<lparr>key_type = ''ssh-rsa'', marshal = ''y''\<rparr> demo_world))
     = files demo_world
   \<and> fst (GrabPubKey_HostKeyCallback demo_lib (AddHostKeyToKnownHosts toy_line) demo_conn
          ''x'' ''10.0.0.1:22'' \<lparr>key_type = ''ssh-rsa'', marshal = ''y''\<rparr> demo_world)
     = Returned None
   \<and> files (snd (GrabPubKey_HostKeyCallback demo_lib (AddHostKeyToKnownHosts toy_line) demo_conn
          ''x'' ''10.0.0.1:22'' \<lparr>key_type = ''ssh-rsa'', marshal = ''y''\<rparr> demo_world))
        ''/home/rospo/.ssh/known_hosts''
     = Some \<lparr>mode = perm_0600, content = ''hkxy''\<rparr>
   \<and> files demo_world ''/home/rospo/.ssh/known_hosts''
     = Some \<lparr>mode = perm_0600, content = ''hk''\<rparr>"
  by (simp add: connect_HostKeyCallback_def GrabPubKey_HostKeyCallback_def verifyHostCallback_def
        open_known_hosts_def knownhosts_New_def check_host_key_def log_Printf_def Let_def
        demo_conn_eq demo_world_def demo_known_hosts_cb AddHostKeyToKnownHosts_def toy_line_def)

text \<open>
  C2, amended. In strict verification, when the store is there and the host is not
  recorded in it (the lookup returns a key error that wants no key): the callback built
  for a client dial logs that the host is not trusted and that its key is to be grabbed
  with \<open>rospo grabpubkey\<close>, and ends the process, leaving the files as they were;
  the callback built by \<open>GrabPubKey\<close> logs a warning with the host and the serialised
  public key, hands host, key and path to \<open>utils.AddHostKeyToKnownHosts\<close>, and returns
  what that returns.
\<close>

theorem C2_unknown_host_fatal_on_dial_added_on_grab:
  assumes "\<not> insecure s" and "files w (knownHosts s) = Some f"
    and "ParseKnownHosts lib (content f) = Inr clb"
    and "clb host remote key = Some (KeyError [])"
  shows "connect_HostKeyCallback lib addHostKey s host remote key w =
           (Fatal not_trusted_format,
            w\<lparr>logged := logged w @
                 [(''using known_hosts file at %s'', [knownHosts s]),
                  (not_trusted_format, [host])]\<rparr>)
         \<and> GrabPubKey_HostKeyCallback lib addHostKey s host remote key w =
           (Returned (fst (addHostKey host key (knownHosts s)
               (w\<lparr>logged := logged w @
                 [(''using known_hosts file at %s'', [knownHosts s]),
                  (''WARNING: %s is not trusted, adding this key: \<newline>\<newline>%s\<newline>\<newline>to known_hosts file.'',
                   [host, SerializePublicKey lib key])]\<rparr>))),
            snd (addHostKey host key (knownHosts s)
               (w\<lparr>logged := logged w @
                 [(''using known_hosts file at %s'', [knownHosts s]),
                  (''WARNING: %s is not trusted, adding this key: \<newline>\<newline>%s\<newline>\<newline>to known_hosts file.'',
                   [host, SerializePublicKey lib key])]\<rparr>)))"
  using assms(4)
  by (simp add: connect_HostKeyCallback_def GrabPubKey_HostKeyCallback_def
        verifyHostCallback_present[OF assms(1,2,3)] check_host_key_def log_Printf_def Let_def
        split: prod.splits)

theorem C2_unknown_host_fatal_on_dial_added_on_grab_witness:
  "\<not> insecure demo_conn
   \<and> files demo_world (knownHosts demo_conn) = Some \<lparr>mode = perm_0600, content = ''hk''\<rparr>
   \<and> (\<exists>clb. ParseKnownHosts demo_lib ''hk'' = Inr clb
         \<and> clb ''x'' ''10.0.0.1:22'' \<lparr>key_type = ''ssh-rsa'', marshal = ''y''\<rparr> = Some (KeyError []))
   \<and> connect_HostKeyCallback demo_lib (AddHostKeyToKnownHosts toy_line) demo_conn
          ''x'' ''10.0.0.1:22'' \<lparr>key_type = ''ssh-rsa'', marshal = ''y''\<rparr> demo_world
     = (Fatal not_trusted_format,
        demo_world\<lparr>logged := [(''using known_hosts file at %s'', [''/home/rospo/.ssh/known_hosts'']),
                               (not_trusted_format, [''x''])]\<rparr>)
   \<and> fst (GrabPubKey_HostKeyCallback demo_lib (AddHostKeyToKnownHosts toy_line) demo_conn
          ''x'' ''10.0.0.1:22'' \<lparr>key_type = ''ssh-rsa'', marshal = ''y''\<rparr> demo_world)
     = Returned None"
proof -
  have h1: "\<not> insecure demo_conn" by (simp add: demo_conn_eq)
  have h2: "files demo_world (knownHosts demo_conn) = Some \<lparr>mode = perm_0600, content = ''hk''\<rparr>"
    by (simp add: demo_conn_eq demo_world_def)
  have h3: "ParseKnownHosts demo_lib (content \<lparr>mode = perm_0600, content = ''hk''\<rparr>) = Inr (\<lambda>host remote key.
      let want = map (\<lambda>(h, k). \<lparr>key_type = ''ssh-rsa'', marshal = [k]\<rparr>)
                     (filter (\<lambda>(h, k). [h] = host) [(CHR ''h'', CHR ''k'')])
      in if want = [] then Some (KeyError [])
         else if key \<in> set want then None
         else Some (KeyError want))"
    by (simp add: demo_known_hosts_cb)
  have h4: "(\<lambda>host remote key.
      let want = map (\<lambda>(h, k). \<lparr>key_type = ''ssh-rsa'', marshal = [k]\<rparr>)
                     (filter (\<lambda>(h, k). [h] = host) [(CHR ''h'', CHR ''k'')])
      in if want = [] then Some (KeyError [])
         else if key \<in> set want then None
         else Some (KeyError want)) ''x'' ''10.0.0.1:22'' \<lparr>key_type = ''ssh-rsa'', marshal = ''y''\<rparr>
      = Some (KeyError [])"
    by simp
  show ?thesis
    using C2_unknown_host_fatal_on_dial_added_on_grab[OF h1 h2 h3 h4,
        of "AddHostKeyToKnownHosts toy_line"] h1 h2 h4
    by (simp add: demo_known_hosts_cb demo_conn_eq demo_world_def AddHostKeyToKnownHosts_def)
qed

text \<open>
  C3. In strict verification, when the store is there and the lookup returns a key
  error that wants other keys for the host, the callback returns that error, whichever
  way it was built, and changes nothing but the log: it writes the line on the store it
  uses and the error line with the fingerprint of the offered key, and every file is
  as before.
\<close>

theorem C3_mismatch_rejected_store_untouched:
  assumes "\<not> insecure s" and "files w (knownHosts s) = Some f"
    and "ParseKnownHosts lib (content f) = Inr clb"
    and "clb host remote key = Some (KeyError want)" and "want \<noteq> []"
  shows "verifyHostCallback lib addHostKey s fail host remote key w =
           (Returned (Some (KeyError want)),
            w\<lparr>logged := logged w @
                 [(''using known_hosts file at %s'', [knownHosts s]),
                  (''ERROR: %s is not a key of %s, either a man in the middle attack or %s host pub key was changed.'',
                   [FingerprintSHA256 lib key, host, host])]\<rparr>)
         \<and> files (snd (verifyHostCallback lib addHostKey s fail host remote key w)) = files w"
  using assms(4,5)
  by (simp add: verifyHostCallback_present[OF assms(1,2,3)] check_host_key_def log_Printf_def Let_def)

theorem C3_mismatch_rejected_store_untouched_witness:
  "\<not> insecure demo_conn
   \<and> files demo_world (knownHosts demo_conn) = Some \<lparr>mode = perm_0600, content = ''hk''\<rparr>
   \<and> (\<exists>clb. ParseKnownHosts demo_lib ''hk'' = Inr clb
         \<and> clb ''h'' ''10.0.0.1:22'' \<lparr>key_type = ''ssh-rsa'', marshal = ''y''\<rparr>
             = Some (KeyError [\<lparr>key_type = ''ssh-rsa'', marshal = ''k''\<rparr>]))
   \<and> fst (verifyHostCallback demo_lib (AddHostKeyToKnownHosts toy_line) demo_conn False
          ''h'' ''10.0.0.1:22'' \<lparr>key_type = ''ssh-rsa'', marshal = ''y''\<rparr> demo_world)
     = Returned (Some (KeyError [\<lparr>key_type = ''ssh-rsa'', marshal = ''k''\<rparr>]))
   \<and> files (snd (verifyHostCallback demo_lib (AddHostKeyToKnownHosts toy_line) demo_conn False
          ''h'' ''10.0.0.1:22'' \<lparr>key_type = ''ssh-rsa'', marshal = ''y''\<rparr> demo_world))
     = files demo_world"
proof -
  have h1: "\<not> insecure demo_conn" by (simp add: demo_conn_eq)
  have h2: "files demo_world (knownHosts demo_conn) = Some \<lparr>mode = perm_0600, content = ''hk''\<rparr>"
    by (simp add: demo_conn_eq demo_world_def)
  have h3: "ParseKnownHosts demo_lib (content \<lparr>mode = perm_0600, content = ''hk''\<rparr>) = Inr (\<lambda>host remote key.
      let want = map (\<lambda>(h, k). \<lparr>key_type = ''ssh-rsa'', marshal = [k]\<rparr>)
                     (filter (\<lambda>(h, k). [h] = host) [(CHR ''h'', CHR ''k'')])
      in if want = [] then Some (KeyError [])
         else if key \<in> set want then None
         else Some (KeyError want))"
    by (simp add: demo_known_hosts_cb)
  have h4: "(\<lambda>host remote key.
      let want = map (\<lambda>(h, k). \<lparr>key_type = ''ssh-rsa'', marshal = [k]\<rparr>)
                     (filter (\<lambda>(h, k). [h] = host) [(CHR ''h'', CHR ''k'')])
      in if want = [] then Some (KeyError [])
         else if key \<in> set want then None
         else Some (KeyError want)) ''h'' ''10.0.0.1:22'' \<lparr>key_type = ''ssh-rsa'', marshal = ''y''\<rparr>
      = Some (KeyError [\<lparr>key_type = ''ssh-rsa'', marshal = ''k''\<rparr>])"
    by simp
  have h5: "[\<lparr>key_type = ''ssh-rsa'', marshal = ''k''\<rparr>] \<noteq> []" by simp
  show ?thesis
    using C3_mismatch_rejected_store_untouched[OF h1 h2 h3 h4 h5,
        of "AddHostKeyToKnownHosts toy_line" False] h1 h2 h4
    by (simp add: demo_known_hosts_cb)
qed

text \<open>
  C7. In strict verification, when there is no file at the known-hosts path and one can
  be created there, the callback creates it empty with permission bits \<open>0600\<close>
  (decimal 384) and calls \<open>knownhosts.New\<close> on the path again, which now parses the
  empty content of the new file; it goes on with the callback this gives, or ends the
  process if this fails too.
\<close>

theorem C7_missing_store_created_and_retried:
  assumes "\<not> insecure s" and "files w (knownHosts s) = None" and "can_create w (knownHosts s)"
  shows "verifyHostCallback lib addHostKey s fail host remote key w =
           (let w1 = w\<lparr>logged := logged w @
                         [(''using known_hosts file at %s'', [knownHosts s]),
                          (''error while parsing 'known_hosts' file: %s: %v'', [knownHosts s])],
                       files := (files w)(knownHosts s \<mapsto> \<lparr>mode = perm_0600, content = ''''\<rparr>)\<rparr>
            in case knownhosts_New lib w1 (knownHosts s) of
                 Inl err \<Rightarrow> (Fatal ''%s'', log_Printf w1 (''%s'', []))
               | Inr clb \<Rightarrow> check_host_key lib addHostKey s fail clb host remote key w1)
         \<and> knownhosts_New lib
              (w\<lparr>logged := logged w @
                         [(''using known_hosts file at %s'', [knownHosts s]),
                          (''error while parsing 'known_hosts' file: %s: %v'', [knownHosts s])],
                       files := (files w)(knownHosts s \<mapsto> \<lparr>mode = perm_0600, content = ''''\<rparr>)\<rparr>)
              (knownHosts s) = ParseKnownHosts lib ''''
         \<and> perm_0600 = 384"
  using assms
  by (simp add: verifyHostCallback_def open_known_hosts_def knownhosts_New_def
        os_OpenFile_O_CREATE_def log_Printf_def Let_def perm_0600_def split: sum.splits)

theorem C7_missing_store_created_and_retried_witness:
  "\<not> insecure demo_conn
   \<and> files fresh_world (knownHosts demo_conn) = None
   \<and> can_create fresh_world (knownHosts demo_conn)
   \<and> fst (verifyHostCallback demo_lib (AddHostKeyToKnownHosts toy_line) demo_conn True
          ''h'' ''10.0.0.1:22'' \<lparr>key_type = ''ssh-rsa'', marshal = ''y''\<rparr> fresh_world)
     = Fatal not_trusted_format
   \<and> files (snd (verifyHostCallback demo_lib (AddHostKeyToKnownHosts toy_line) demo_conn True
          ''h'' ''10.0.0.1:22'' \<lparr>key_type = ''ssh-rsa'', marshal = ''y''\<rparr> fresh_world))
     = [''/home/rospo/.ssh/known_hosts'' \<mapsto> \<lparr>mode = 384, content = ''''\<rparr>]"
proof -
  have h1: "\<not> insecure demo_conn" by (simp add: demo_conn_eq)
  have h2: "files fresh_world (knownHosts demo_conn) = None" by (simp add: fresh_world_def)
  have h3: "can_create fresh_world (knownHosts demo_conn)" by (simp add: fresh_world_def)
  have p: "ParseKnownHosts demo_lib '''' = Inr (\<lambda>host remote key. Some (KeyError []))"
    by (simp add: demo_lib_def toy_ParseKnownHosts_def)
  show ?thesis
    using C7_missing_store_created_and_retried[OF h1 h2 h3,
        of demo_lib "AddHostKeyToKnownHosts toy_line" True "''h''" "''10.0.0.1:22''"
           "\<lparr>key_type = ''ssh-rsa'', marshal = ''y''\<rparr>"] h1 h2 h3
    by (simp add: p check_host_key_def log_Printf_def Let_def fresh_world_def demo_conn_eq
          perm_0600_def)
qed

subsection \<open>Endpoints: rendering and parsing back\<close>

lemma of_char_digit_char: "d < 10 \<Longrightarrow> (of_char (digit_char d) :: nat) = 48 + d"
  by (simp add: digit_char_def)

lemma is_digit_digit_char: "d < 10 \<Longrightarrow> is_digit (digit_char d)"
  by (simp add: is_digit_def of_char_digit_char)

lemma decimal_not_Nil: "decimal n \<noteq> []"
  by (induction n rule: decimal.induct) (subst decimal.simps, simp)

lemma decimal_digits: "list_all is_digit (decimal n)"
proof (induction n rule: decimal.induct)
  case (1 n)
  show ?case
  proof (cases "n < 10")
    case True
    then show ?thesis by (subst decimal.simps) (simp add: is_digit_digit_char)
  next
    case False
    with 1 show ?thesis by (subst decimal.simps) (simp add: is_digit_digit_char)
  qed
qed

lemma parse_decimal_snoc:
  "parse_decimal (ds @ [c]) = 10 * parse_decimal ds + (of_char c - 48)"
  by (simp add: parse_decimal_def)

lemma parse_decimal_decimal: "parse_decimal (decimal n) = n"
proof (induction n rule: decimal.induct)
  case (1 n)
  show ?case
  proof (cases "n < 10")
    case True
    then show ?thesis
      by (subst decimal.simps) (simp add: parse_decimal_def of_char_digit_char)
  next
    case False
    with 1 have "parse_decimal (decimal (n div 10)) = n div 10" by simp
    with False show ?thesis
      by (subst decimal.simps) (simp add: parse_decimal_snoc of_char_digit_char)
  qed
qed

lemma parse_port_decimal: "n \<le> 65535 \<Longrightarrow> parse_port (decimal n) = Some (int n)"
  by (simp add: parse_port_def decimal_not_Nil decimal_digits parse_decimal_decimal)

lemma is_digit_not_sep:
  "is_digit c \<Longrightarrow> c \<noteq> CHR ''@'' \<and> c \<noteq> CHR '':'' \<and> c \<noteq> CHR ''/''"
  by (auto simp add: is_digit_def)

lemma digits_no_sep:
  assumes "list_all is_digit ds"
  shows "CHR ''@'' \<notin> set ds" "CHR '':'' \<notin> set ds" "CHR ''/'' \<notin> set ds"
  using assms is_digit_not_sep by (auto simp add: list_all_iff)

lemma no_scheme:
  assumes "CHR '':'' \<notin> set h" "ds \<noteq> []" "CHR ''/'' \<notin> set ds"
  shows "take 6 (h @ CHR '':'' # ds) \<noteq> ''ssh://''"
proof
  assume eq: "take 6 (h @ CHR '':'' # ds) = ''ssh://''"
  show False
  proof (cases h)
    case Nil
    with eq show False by simp
  next
    case (Cons a h1)
    note A = Cons
    show False
    proof (cases h1)
      case Nil
      with eq A show False by simp
    next
      case (Cons b h2)
      note B = Cons
      show False
      proof (cases h2)
        case Nil
        with eq A B show False by simp
      next
        case (Cons c h3)
        note C = Cons
        show False
        proof (cases h3)
          case Nil
          with eq A B C assms(2,3) show False by (cases ds) auto
        next
          case (Cons d h4)
          with eq A B C assms(1) show False by auto
        qed
      qed
    qed
  qed
qed

lemma takeWhile_sep: "c \<notin> set h \<Longrightarrow> takeWhile (\<lambda>x. x \<noteq> c) (h @ c # ds) = h"
  by (induction h) auto

lemma dropWhile_sep: "c \<notin> set h \<Longrightarrow> dropWhile (\<lambda>x. x \<noteq> c) (h @ c # ds) = c # ds"
  by (induction h) auto

lemma ParseSSHUrl_host_port:
  assumes "h \<noteq> ''''" "CHR ''@'' \<notin> set h" "CHR '':'' \<notin> set h" "n \<le> 65535"
  shows "ParseSSHUrl (h @ '':'' @ decimal n) = Inr \<lparr>Host = h, Port = int n, Username = ''''\<rparr>"
proof -
  let ?ds = "decimal n"
  let ?url = "h @ CHR '':'' # ?ds"
  have ds: "?ds \<noteq> []" "CHR ''@'' \<notin> set ?ds" "CHR '':'' \<notin> set ?ds" "CHR ''/'' \<notin> set ?ds"
    using decimal_not_Nil digits_no_sep[OF decimal_digits] by simp_all
  have scheme: "take 6 ?url \<noteq> ''ssh://''"
    using assms(3) ds(1,4) by (rule no_scheme)
  have at: "CHR ''@'' \<notin> set ?url" using assms(2) ds(2) by simp
  have colon: "CHR '':'' \<in> set ?url" by simp
  have tw: "takeWhile (\<lambda>c. c \<noteq> CHR '':'') ?url = h"
    using assms(3) by (rule takeWhile_sep)
  have dw: "tl (dropWhile (\<lambda>c. c \<noteq> CHR '':'') ?url) = ?ds"
    using assms(3) by (simp add: dropWhile_sep)
  have "ParseSSHUrl ?url = Inr \<lparr>Host = h, Port = int n, Username = ''''\<rparr>"
    unfolding ParseSSHUrl_def Let_def
    using scheme at colon tw dw assms(1) parse_port_decimal[OF assms(4)]
    by (simp del: set_append set_simps list.set)
  then show ?thesis by simp
qed

text \<open>
  C9. An endpoint is valid when its host is not empty and has neither \<open>@\<close> nor a colon
  in it, and its port is in the range of a \<open>u16\<close>. For every valid endpoint \<open>String\<close>
  renders the host, a colon and the decimal port, with no user part, and \<open>NewEndpoint\<close>
  of the rendered string returns the endpoint itself: same host, same port.
\<close>

theorem C9_endpoint_string_roundtrip:
  assumes "Host e \<noteq> ''''" and "CHR ''@'' \<notin> set (Host e)" and "CHR '':'' \<notin> set (Host e)"
    and "0 \<le> Port e" and "Port e \<le> 65535"
  shows "String e = Host e @ '':'' @ decimal (nat (Port e))
         \<and> CHR ''@'' \<notin> set (String e)
         \<and> NewEndpoint (String e) = Inr e"
proof -
  have s: "String e = Host e @ '':'' @ decimal (nat (Port e))"
    using assms(4) by (simp add: String_def fmt_d_def)
  have n: "nat (Port e) \<le> 65535" using assms(5) by simp
  have p: "ParseSSHUrl (String e) = Inr \<lparr>Host = Host e, Port = int (nat (Port e)), Username = ''''\<rparr>"
    unfolding s using assms(1,2,3) n by (rule ParseSSHUrl_host_port)
  have a: "CHR ''@'' \<notin> set (String e)"
    using assms(2) digits_no_sep(1)[OF decimal_digits, of "nat (Port e)"] by (simp add: s)
  have "NewEndpoint (String e) = Inr e"
    using assms(4) by (simp add: NewEndpoint_def p)
  with s a show ?thesis by simp
qed

theorem C9_endpoint_string_roundtrip_witness:
  "Host \<lparr>Host = ''example.org'', Port = 2222\<rparr> \<noteq> ''''
   \<and> CHR ''@'' \<notin> set (Host \<lparr>Host = ''example.org'', Port = 2222\<rparr>)
   \<and> CHR '':'' \<notin> set (Host \<lparr>Host = ''example.org'', Port = 2222\<rparr>)
   \<and> String \<lparr>Host = ''example.org'', Port = 2222\<rparr> = ''example.org:2222''
   \<and> NewEndpoint ''example.org:2222'' = Inr \<lparr>Host = ''example.org'', Port = 2222\<rparr>"
proof -
  let ?e = "\<lparr>Host = ''example.org'', Port = 2222\<rparr>"
  have d: "decimal 2222 = ''2222''"
    by code_simp
  have s: "String ?e = ''example.org:2222''"
    by (simp add: String_def fmt_d_def d)
  have h1: "Host ?e \<noteq> ''''" by simp
  have h2: "CHR ''@'' \<notin> set (Host ?e)" by simp
  have h3: "CHR '':'' \<notin> set (Host ?e)" by simp
  have h4: "0 \<le> Port ?e" by simp
  have h5: "Port ?e \<le> 65535" by simp
  from C9_endpoint_string_roundtrip[OF h1 h2 h3 h4 h5]
  have "NewEndpoint (String ?e) = Inr ?e" by (rule conjunct2 [THEN conjunct2])
  then have r: "NewEndpoint ''example.org:2222'' = Inr ?e" by (simp only: s)
  from h1 h2 h3 s r show ?thesis by (intro conjI)
qed

end
